theory Spec2Isabelle
  imports Main
begin

section \<open>JavaScript values\<close>

text \<open>
  The manifest is the result of a JSON parse, and the parser reads it with JavaScript's
  dynamic operations: property reads, truthiness tests, \<open>String(...)\<close>, \<open>Object.keys\<close>.
  \<open>JUndefined\<close> is the result of reading a property that is not there; it never occurs
  inside a parsed document. The numbers of JavaScript are doubles: \<open>JNum n\<close> is the
  number with the integer value \<open>n\<close>, and \<open>JFraction m k\<close>, with \<open>m\<close> odd and \<open>k\<close> positive,
  is the number \<open>m / 2^k\<close>, which is not an integer. A \<open>JNum\<close> or a \<open>JFraction\<close> that no
  double holds stands for the nearest double.
\<close>

datatype json =
    JUndefined
  | JNull
  | JBool bool
  | JNum int
  | JFraction int nat
  | JStr string
  | JArr "json list"
  | JObj "(string \<times> json) list"

text \<open>
  An exception of the JavaScript run time (\<open>TypeError\<close>: a property read on
  \<open>undefined\<close> or \<open>null\<close>, a call of something that is not a function, a spread of
  something that is not iterable), or one thrown by a collaborator outside the file.
\<close>

datatype exn = TypeError | Thrown string

definition bindE :: "exn + 'a \<Rightarrow> ('a \<Rightarrow> exn + 'b) \<Rightarrow> exn + 'b" where
  "bindE m f = (case m of Inl e \<Rightarrow> Inl e | Inr x \<Rightarrow> f x)"

section \<open>Numbers and their strings\<close>

text \<open>Decimal digits of a natural number, and the number of its bits.\<close>

function decimal :: "int \<Rightarrow> string" where
  "decimal n = (if n < 10 then [char_of (48 + n)] else decimal (n div 10) @ [char_of (48 + n mod 10)])"
  by pat_completeness auto

termination
  by (relation "measure nat") auto

declare decimal.simps [simp del]

function bit_length :: "int \<Rightarrow> nat" where
  "bit_length n = (if n \<le> 0 then 0 else Suc (bit_length (n div 2)))"
  by pat_completeness auto

termination
  by (relation "measure nat") auto

declare bit_length.simps [simp del]

text \<open>
  The double nearest to \<open>num / den\<close>, for \<open>num\<close> not negative and \<open>den\<close> positive, as
  \<open>(q, E)\<close> with the value \<open>q * 2^E\<close>: \<open>q\<close> has 53 bits, fewer when \<open>E\<close> is the least
  exponent -1074, and a tie goes to the even neighbour.
\<close>

definition scaled :: "int \<Rightarrow> int \<Rightarrow> int \<Rightarrow> int \<times> int" where
  "scaled num den E = (if 0 \<le> E then (num, den * 2 ^ nat E) else (num * 2 ^ nat (- E), den))"

definition round_double :: "int \<Rightarrow> int \<Rightarrow> int \<times> int" where
  "round_double num den =
     (if num = 0 then (0, 0)
      else let E0 = int (bit_length num) - int (bit_length den) - 53;
               E1 = (case scaled num den E0 of (a, b) \<Rightarrow> if 2 ^ 53 * b \<le> a then E0 + 1 else E0);
               E = max E1 (- 1074)
           in case scaled num den E of (a, b) \<Rightarrow>
                (if b < 2 * (a mod b) \<or> (2 * (a mod b) = b \<and> odd (a div b))
                 then a div b + 1 else a div b, E))"

definition same_double :: "int \<times> int \<Rightarrow> int \<times> int \<Rightarrow> bool" where
  "same_double v w =
     (case (v, w) of ((q1, e1), (q2, e2)) \<Rightarrow>
        q1 * 2 ^ nat (e1 - min e1 e2) = q2 * 2 ^ nat (e2 - min e1 e2))"

text \<open>
  \<open>String(x)\<close> of a number \<open>x\<close> that is not negative, the double nearest to
  \<open>num / den\<close>. The double is \<open>A / den'\<close> for a power \<open>den'\<close> of 10. The string has the
  fewest decimal digits that read back as the same double and, of those, the ones
  closest to it (the even ones in a tie): \<open>shortest_at\<close> tries the multiples of \<open>p\<close>
  next to \<open>A\<close>, for the powers \<open>p\<close> of 10 from the largest. With \<open>k\<close> digits and the
  decimal point after the first \<open>n\<close> of them, the number is written in full when
  \<open>-6 < n \<le> 21\<close> and with an exponent otherwise; what reaches \<open>2^1024\<close> is
  \<open>Infinity\<close>.
\<close>

definition shortest_at :: "int \<times> int \<Rightarrow> int \<Rightarrow> int \<Rightarrow> int \<Rightarrow> int option" where
  "shortest_at v A den p =
     (let lo = A div p; a = lo * p; b = (lo + 1) * p;
          va = same_double (round_double a den) v;
          vb = same_double (round_double b den) v
      in if va \<and> vb
         then Some (if A - a < b - A then a else if b - A < A - a then b
                    else if even lo then a else b)
         else if va then Some a
         else if vb then Some b
         else None)"

fun shortest :: "int \<times> int \<Rightarrow> int \<Rightarrow> int \<Rightarrow> int list \<Rightarrow> int" where
  "shortest v A den [] = A"
| "shortest v A den (p # ps) =
     (case shortest_at v A den p of Some c \<Rightarrow> c | None \<Rightarrow> shortest v A den ps)"

definition number_text :: "int \<Rightarrow> int \<Rightarrow> string" where
  "number_text num den =
     (case round_double num den of (q, E) \<Rightarrow>
        if q = 0 then ''0''
        else if 0 \<le> E \<and> 2 ^ 1024 \<le> q * 2 ^ nat E then ''Infinity''
        else let K = (if 0 \<le> E then 0 else nat (- E));
                 A = (if 0 \<le> E then q * 2 ^ nat E else q * 5 ^ K);
                 ds = decimal (shortest (q, E) A (10 ^ K)
                                 (map (\<lambda>j. 10 ^ j) (rev [0..<length (decimal A)])));
                 n = int (length ds) - int K;
                 sig = rev (dropWhile (\<lambda>ch. ch = CHR ''0'') (rev ds));
                 k = int (length sig)
             in if k \<le> n \<and> n \<le> 21 then sig @ replicate (nat (n - k)) (CHR ''0'')
                else if 0 < n \<and> n \<le> 21 then take (nat n) sig @ ''.'' @ drop (nat n) sig
                else if - 6 < n \<and> n \<le> 0 then ''0.'' @ replicate (nat (- n)) (CHR ''0'') @ sig
                else (if k = 1 then sig else hd sig # CHR ''.'' # tl sig)
                     @ ''e'' @ (if 1 \<le> n then ''+'' else ''-'') @ decimal (abs (n - 1)))"

text \<open>
  \<open>String(x)\<close> of a number: a safe integer is its decimal digits; zero has no sign.
\<close>

definition signed_text :: "bool \<Rightarrow> string \<Rightarrow> string" where
  "signed_text negative t = (if negative \<and> t \<noteq> ''0'' then CHR ''-'' # t else t)"

definition string_of_int :: "int \<Rightarrow> string" where
  "string_of_int i =
     signed_text (i < 0) (if abs i < 2 ^ 53 then decimal (abs i) else number_text (abs i) 1)"

definition string_of_fraction :: "int \<Rightarrow> nat \<Rightarrow> string" where
  "string_of_fraction m k = signed_text (m < 0) (number_text (abs m) (2 ^ k))"

section \<open>Reading values\<close>

text \<open>Truthiness (\<open>if (v)\<close>, \<open>!v\<close>, \<open>a && b\<close>).\<close>

fun truthy :: "json \<Rightarrow> bool" where
  "truthy JUndefined = False"
| "truthy JNull = False"
| "truthy (JBool b) = b"
| "truthy (JNum n) = (n \<noteq> 0)"
| "truthy (JFraction m k) = (fst (round_double (abs m) (2 ^ k)) \<noteq> 0)"
| "truthy (JStr s) = (s \<noteq> [])"
| "truthy (JArr xs) = True"
| "truthy (JObj kvs) = True"

text \<open>
  \<open>Object.keys\<close> of an object: its own keys, each once. A parsed object has every key
  once; where a list repeats a key the first entry is the property (as \<open>map_of\<close> reads
  it). The order is the order of the list.
\<close>

fun own_keys :: "(string \<times> json) list \<Rightarrow> string list" where
  "own_keys [] = []"
| "own_keys ((k, v) # kvs) = k # filter (\<lambda>k'. k' \<noteq> k) (own_keys kvs)"

definition own :: "(string \<times> json) list \<Rightarrow> string \<Rightarrow> json" where
  "own kvs k = (case map_of kvs k of None \<Rightarrow> JUndefined | Some v \<Rightarrow> v)"

text \<open>
  A property read \<open>v.k\<close> for the property names the parser uses (none of them is a
  property of a string, a number, a boolean or an array, or of \<open>Object.prototype\<close>).
\<close>

fun get :: "json \<Rightarrow> string \<Rightarrow> exn + json" where
  "get JUndefined k = Inl TypeError"
| "get JNull k = Inl TypeError"
| "get (JObj kvs) k = Inr (own kvs k)"
| "get v k = Inr JUndefined"

text \<open>\<open>Object.prototype.hasOwnProperty.call(v, k)\<close>, for the same property names.\<close>

fun hasOwnProperty :: "json \<Rightarrow> string \<Rightarrow> exn + bool" where
  "hasOwnProperty JUndefined k = Inl TypeError"
| "hasOwnProperty JNull k = Inl TypeError"
| "hasOwnProperty (JObj kvs) k = Inr (k \<in> set (map fst kvs))"
| "hasOwnProperty v k = Inr False"

text \<open>Decimal digits of a natural number.\<close>

fun digits :: "nat \<Rightarrow> string" where
  "digits n = (if n < 10 then [char_of (48 + n)] else digits (n div 10) @ [char_of (48 + n mod 10)])"

declare digits.simps [simp del]

fun intercalate :: "string \<Rightarrow> string list \<Rightarrow> string" where
  "intercalate sep [] = []"
| "intercalate sep [x] = x"
| "intercalate sep (x # y # ys) = x @ sep @ intercalate sep (y # ys)"

text \<open>
  \<open>String(v)\<close>, and the string an array's \<open>join\<close> takes for an element (\<open>undefined\<close>
  and \<open>null\<close> are the empty string there).
\<close>

fun js_String :: "json \<Rightarrow> string"
  and join_element :: "json \<Rightarrow> string" where
  "js_String JUndefined = ''undefined''"
| "js_String JNull = ''null''"
| "js_String (JBool b) = (if b then ''true'' else ''false'')"
| "js_String (JNum n) = string_of_int n"
| "js_String (JFraction m k) = string_of_fraction m k"
| "js_String (JStr s) = s"
| "js_String (JArr xs) = intercalate '','' (map join_element xs)"
| "js_String (JObj kvs) = ''[object Object]''"
| "join_element JUndefined = []"
| "join_element JNull = []"
| "join_element (JBool b) = (if b then ''true'' else ''false'')"
| "join_element (JNum n) = string_of_int n"
| "join_element (JFraction m k) = string_of_fraction m k"
| "join_element (JStr s) = s"
| "join_element (JArr xs) = intercalate '','' (map join_element xs)"
| "join_element (JObj kvs) = ''[object Object]''"

definition js_join :: "string \<Rightarrow> json list \<Rightarrow> string" where
  "js_join sep xs = intercalate sep (map join_element xs)"

text \<open>
  \<open>toLowerCase\<close> and \<open>toUpperCase\<close> on the ASCII letters; other characters are left as
  they are.
\<close>

definition lower_char :: "char \<Rightarrow> char" where
  "lower_char c = (let n = (of_char c :: nat) in if 65 \<le> n \<and> n \<le> 90 then char_of (n + 32) else c)"

definition upper_char :: "char \<Rightarrow> char" where
  "upper_char c = (let n = (of_char c :: nat) in if 97 \<le> n \<and> n \<le> 122 then char_of (n - 32) else c)"

text \<open>ASCII white space and digits.\<close>

definition is_space :: "char \<Rightarrow> bool" where
  "is_space c = (c \<in> set [CHR '' '', CHR 0x09, CHR 0x0A, CHR 0x0B, CHR 0x0C, CHR 0x0D])"

definition is_digit :: "char \<Rightarrow> bool" where
  "is_digit ch = (48 \<le> (of_char ch :: nat) \<and> (of_char ch :: nat) \<le> 57)"

definition startsWith :: "string \<Rightarrow> string \<Rightarrow> bool" where
  "startsWith s p = (take (length p) s = p)"

definition endsWith :: "string \<Rightarrow> string \<Rightarrow> bool" where
  "endsWith s p = (length p \<le> length s \<and> drop (length s - length p) s = p)"

definition toLowerCase :: "string \<Rightarrow> string" where
  "toLowerCase s = map lower_char s"

definition toUpperCase :: "string \<Rightarrow> string" where
  "toUpperCase s = map upper_char s"

section \<open>Schema issues, messages and the collector\<close>

text \<open>
  One issue of the schema validator (\<open>validate.errors\<close>): the fields \<open>errorLookup\<close>
  reads. \<open>message\<close> is \<open>None\<close> when the issue has none; \<open>data\<close> is \<open>JUndefined\<close> when
  the issue has none; \<open>privilegedPermissions\<close> is \<open>params.privilegedPermissions\<close>
  (\<open>None\<close>: not there). The keyword is one of \<open>SCHEMA_KEYWORDS\<close> (\<open>TYPE_KEYWORD\<close> is
  \<open>SCHEMA_KEYWORDS.TYPE\<close>) or another string.
\<close>

datatype schema_keyword =
    REQUIRED
  | DEPRECATED
  | MIN_MANIFEST_VERSION
  | MAX_MANIFEST_VERSION
  | VALIDATE_PRIVILEGED_PERMISSIONS
  | TYPE_KEYWORD
  | PRIVILEGED
  | OTHER_KEYWORD string

record schema_error =
  keyword :: schema_keyword
  instancePath :: string
  message :: "string option"
  data :: json
  privilegedPermissions :: "json list option"

text \<open>
  Modelled from the spec: the module \<open>messages\<close> is not among the sources. The spec's
  Diagnostic is \<open>{code, severity, message, optional description}\<close>. A message is
  modelled by its \<open>code\<close> and the arguments the parser passes to the export of
  \<open>messages\<close> that builds it; the code is the export's name in capitals, and the texts
  of the templates are not modelled. \<open>description_null\<close> says that the message's
  \<open>description\<close> is \<open>null\<close> (only \<open>errorLookup\<close> asks). Where \<open>errorLookup\<close>
  overrides the message, the description or the instance path of a message
  (\<open>{...baseObject, ...overrides}\<close>), the overriding strings are further arguments:
  \<open>OverrideDescription\<close> with the message of the issue (\<open>None\<close>: \<open>undefined\<close>),
  \<open>OverrideDescriptionOf\<close> with the code of the template whose description was taken.
\<close>

datatype arg =
    AStr string
  | AJson json
  | AInt "int option"
  | AErr schema_error
  | OverrideMessage string
  | OverrideDescription "string option"
  | OverrideDescriptionOf string
  | OverrideInstancePath string

datatype msg = Msg (code: string) (args: "arg list") (description_null: bool)

definition JSON_INVALID :: msg where
  "JSON_INVALID = Msg ''JSON_INVALID'' [] False"
definition MANIFEST_FIELD_REQUIRED :: msg where
  "MANIFEST_FIELD_REQUIRED = Msg ''MANIFEST_FIELD_REQUIRED'' [] False"
definition MANIFEST_FIELD_INVALID :: msg where
  "MANIFEST_FIELD_INVALID = Msg ''MANIFEST_FIELD_INVALID'' [] False"
definition APPLICATIONS_INVALID :: msg where
  "APPLICATIONS_INVALID = Msg ''APPLICATIONS_INVALID'' [] False"
definition MANIFEST_BAD_PERMISSION :: msg where
  "MANIFEST_BAD_PERMISSION = Msg ''MANIFEST_BAD_PERMISSION'' [] False"
definition MANIFEST_BAD_OPTIONAL_PERMISSION :: msg where
  "MANIFEST_BAD_OPTIONAL_PERMISSION = Msg ''MANIFEST_BAD_OPTIONAL_PERMISSION'' [] False"
definition MANIFEST_BAD_HOST_PERMISSION :: msg where
  "MANIFEST_BAD_HOST_PERMISSION = Msg ''MANIFEST_BAD_HOST_PERMISSION'' [] False"
definition MANIFEST_PERMISSIONS :: msg where
  "MANIFEST_PERMISSIONS = Msg ''MANIFEST_PERMISSIONS'' [] False"
definition MANIFEST_OPTIONAL_PERMISSIONS :: msg where
  "MANIFEST_OPTIONAL_PERMISSIONS = Msg ''MANIFEST_OPTIONAL_PERMISSIONS'' [] False"
definition MANIFEST_HOST_PERMISSIONS :: msg where
  "MANIFEST_HOST_PERMISSIONS = Msg ''MANIFEST_HOST_PERMISSIONS'' [] False"
definition MANIFEST_INSTALL_ORIGINS :: msg where
  "MANIFEST_INSTALL_ORIGINS = Msg ''MANIFEST_INSTALL_ORIGINS'' [] False"
definition MANIFEST_DICT_MISSING_ID :: msg where
  "MANIFEST_DICT_MISSING_ID = Msg ''MANIFEST_DICT_MISSING_ID'' [] False"
definition MANIFEST_EMPTY_DICTS :: msg where
  "MANIFEST_EMPTY_DICTS = Msg ''MANIFEST_EMPTY_DICTS'' [] False"
definition MANIFEST_MULTIPLE_DICTS :: msg where
  "MANIFEST_MULTIPLE_DICTS = Msg ''MANIFEST_MULTIPLE_DICTS'' [] False"
definition STRICT_MAX_VERSION :: msg where
  "STRICT_MAX_VERSION = Msg ''STRICT_MAX_VERSION'' [] False"

text \<open>The codes that \<open>messages\<close> exports as strings.\<close>

definition MANIFEST_PERMISSION_UNSUPPORTED :: string where
  "MANIFEST_PERMISSION_UNSUPPORTED = ''MANIFEST_PERMISSION_UNSUPPORTED''"
definition MANIFEST_FIELD_UNSUPPORTED :: string where
  "MANIFEST_FIELD_UNSUPPORTED = ''MANIFEST_FIELD_UNSUPPORTED''"
definition MANIFEST_PERMISSIONS_PRIVILEGED :: string where
  "MANIFEST_PERMISSIONS_PRIVILEGED = ''MANIFEST_PERMISSIONS_PRIVILEGED''"
definition MANIFEST_FIELD_PRIVILEGED :: string where
  "MANIFEST_FIELD_PRIVILEGED = ''MANIFEST_FIELD_PRIVILEGED''"

text \<open>The templates: functions of \<open>messages\<close>.\<close>

definition manifestPermissionUnsupported :: "json \<Rightarrow> schema_error \<Rightarrow> msg" where
  "manifestPermissionUnsupported d e = Msg MANIFEST_PERMISSION_UNSUPPORTED [AJson d, AErr e] False"
definition manifestFieldUnsupported :: "string \<Rightarrow> schema_error \<Rightarrow> msg" where
  "manifestFieldUnsupported p e = Msg MANIFEST_FIELD_UNSUPPORTED [AStr p, AErr e] False"
definition mozillaAddonsPermissionRequired :: "schema_error \<Rightarrow> msg" where
  "mozillaAddonsPermissionRequired e = Msg ''MOZILLA_ADDONS_PERMISSION_REQUIRED'' [AErr e] False"
definition privilegedFeaturesRequired :: "schema_error \<Rightarrow> msg" where
  "privilegedFeaturesRequired e = Msg ''PRIVILEGED_FEATURES_REQUIRED'' [AErr e] False"
definition manifestPermissionsPrivileged :: "schema_error \<Rightarrow> msg" where
  "manifestPermissionsPrivileged e = Msg MANIFEST_PERMISSIONS_PRIVILEGED [AErr e] False"
definition manifestFieldPrivileged :: "schema_error \<Rightarrow> msg" where
  "manifestFieldPrivileged e = Msg MANIFEST_FIELD_PRIVILEGED [AErr e] False"
definition manifestDictionaryFileMissing :: "string \<Rightarrow> string \<Rightarrow> msg" where
  "manifestDictionaryFileMissing p t = Msg ''MANIFEST_DICTIONARY_FILE_MISSING'' [AStr p, AStr t] False"
definition makeRestrictedPermission :: "string \<Rightarrow> string \<Rightarrow> msg" where
  "makeRestrictedPermission p v = Msg ''MAKE_RESTRICTED_PERMISSION'' [AStr p, AStr v] False"
definition manifestCspUnsafeEval :: "string \<Rightarrow> msg" where
  "manifestCspUnsafeEval p = Msg ''MANIFEST_CSP_UNSAFE_EVAL'' [AStr p] False"
definition manifestCsp :: "string \<Rightarrow> msg" where
  "manifestCsp p = Msg ''MANIFEST_CSP'' [AStr p] False"

text \<open>
  Modelled from the spec: the collector is not among the sources. It is append-only and
  keeps the order of emission, one list for each severity.
\<close>

record collector =
  errors :: "msg list"
  warnings :: "msg list"
  notices :: "msg list"

definition addError :: "msg \<Rightarrow> collector \<Rightarrow> collector" where
  "addError m c = c\<lparr>errors := errors c @ [m]\<rparr>"

definition addWarning :: "msg \<Rightarrow> collector \<Rightarrow> collector" where
  "addWarning m c = c\<lparr>warnings := warnings c @ [m]\<rparr>"

definition addNotice :: "msg \<Rightarrow> collector \<Rightarrow> collector" where
  "addNotice m c = c\<lparr>notices := notices c @ [m]\<rparr>"

definition empty_collector :: collector where
  "empty_collector = \<lparr>errors = [], warnings = [], notices = []\<rparr>"

section \<open>Content security policy\<close>

text \<open>
  \<open>validateCspPolicyString\<close> (lines 1041-1114). The policy's directives, as
  \<open>parseCspPolicy\<close> returns them: directive name to tokens. \<open>parseCspPolicy\<close> (of
  \<open>utils\<close>) and \<open>CSP_KEYWORD_RE\<close> (of \<open>const\<close>) are not among the sources: they are
  parameters of the function.
\<close>

type_synonym directives = "(string \<times> string list) list"

definition candidates :: "string list" where
  "candidates = [''default-src'', ''script-src'', ''script-src-elem'', ''script-src-attr'', ''worker-src'']"

text \<open>The token \<open>'unsafe-eval'\<close>, with its quotes.\<close>

definition quoted :: "string \<Rightarrow> string" where
  "quoted s = CHR 0x27 # s @ [CHR 0x27]"

definition unsafe_eval :: string where
  "unsafe_eval = quoted ''unsafe-eval''"

record csp_flags =
  insecureSrcDirective :: bool
  warnInsecureCsp :: bool
  warnInsecureEval :: bool

text \<open>The inner loop \<open>for (const value of values)\<close> of one candidate.\<close>

fun scan_values :: "(string \<Rightarrow> bool) \<Rightarrow> string \<Rightarrow> string list \<Rightarrow> csp_flags \<Rightarrow> csp_flags" where
  "scan_values isSecureCspValue candidate [] f = f"
| "scan_values isSecureCspValue candidate (v # vs) f =
     scan_values isSecureCspValue candidate vs
       (if v = unsafe_eval then f\<lparr>warnInsecureEval := True\<rparr>
        else if \<not> isSecureCspValue v then
          (if candidate = ''default-src''
           then f\<lparr>warnInsecureCsp := True, insecureSrcDirective := True\<rparr>
           else f\<lparr>warnInsecureCsp := True\<rparr>)
        else f)"

text \<open>One round of the outer loop, for one candidate.\<close>

definition csp_step :: "(string \<Rightarrow> bool) \<Rightarrow> directives \<Rightarrow> string \<Rightarrow> csp_flags \<Rightarrow> csp_flags" where
  "csp_step isSecureCspValue ds candidate f =
     (case map_of ds candidate of
        None \<Rightarrow> f
      | Some vs \<Rightarrow>
          if insecureSrcDirective f \<and> candidate = ''script-src'' \<and> list_all isSecureCspValue vs
          then f\<lparr>insecureSrcDirective := False, warnInsecureCsp := False\<rparr>
          else scan_values isSecureCspValue candidate vs f)"

text \<open>The outer loop over the candidates, in their order.\<close>

fun scan_candidates :: "(string \<Rightarrow> bool) \<Rightarrow> directives \<Rightarrow> string list \<Rightarrow> csp_flags \<Rightarrow> csp_flags" where
  "scan_candidates isSecureCspValue ds [] f = f"
| "scan_candidates isSecureCspValue ds (candidate # cs) f =
     scan_candidates isSecureCspValue ds cs (csp_step isSecureCspValue ds candidate f)"

definition csp_initial :: "directives \<Rightarrow> csp_flags" where
  "csp_initial ds =
     \<lparr>insecureSrcDirective = (map_of ds ''default-src'' = None),
      warnInsecureCsp = (map_of ds ''default-src'' = None),
      warnInsecureEval = False\<rparr>"

definition csp_scan :: "(string \<Rightarrow> bool) \<Rightarrow> directives \<Rightarrow> csp_flags" where
  "csp_scan isSecureCspValue ds = scan_candidates isSecureCspValue ds candidates (csp_initial ds)"

definition validateCspPolicyString ::
  "(json \<Rightarrow> exn + directives) \<Rightarrow> (string \<Rightarrow> bool) \<Rightarrow> json \<Rightarrow> string \<Rightarrow> collector \<Rightarrow> exn + collector" where
  "validateCspPolicyString parseCspPolicy CSP_KEYWORD_RE policy manifestPropName c =
     bindE (parseCspPolicy policy) (\<lambda>ds.
       let f = csp_scan CSP_KEYWORD_RE ds;
           c1 = (if warnInsecureEval f then addWarning (manifestCspUnsafeEval manifestPropName) c else c);
           c2 = (if warnInsecureCsp f then addWarning (manifestCsp manifestPropName) c1 else c1)
       in Inr c2)"

text \<open>
  What the scan finds in one directive: a token that is neither \<open>'unsafe-eval'\<close> nor a
  safe keyword; only safe keywords; the token \<open>'unsafe-eval'\<close>.
\<close>

definition bad_token :: "(string \<Rightarrow> bool) \<Rightarrow> string \<Rightarrow> bool" where
  "bad_token isSecureCspValue v = (v \<noteq> unsafe_eval \<and> \<not> isSecureCspValue v)"

definition has_bad :: "(string \<Rightarrow> bool) \<Rightarrow> directives \<Rightarrow> string \<Rightarrow> bool" where
  "has_bad isSecureCspValue ds d =
     (case map_of ds d of None \<Rightarrow> False | Some vs \<Rightarrow> list_ex (bad_token isSecureCspValue) vs)"

definition all_secure :: "(string \<Rightarrow> bool) \<Rightarrow> directives \<Rightarrow> string \<Rightarrow> bool" where
  "all_secure isSecureCspValue ds d =
     (case map_of ds d of None \<Rightarrow> False | Some vs \<Rightarrow> list_all isSecureCspValue vs)"

definition has_eval :: "directives \<Rightarrow> string \<Rightarrow> bool" where
  "has_eval ds d = (case map_of ds d of None \<Rightarrow> False | Some vs \<Rightarrow> unsafe_eval \<in> set vs)"

text \<open>
  \<open>validateCspPolicy\<close> (lines 1027-1039): one policy string, or one policy for each key
  of an object. \<open>Object.keys\<close> and \<open>policy[key]\<close> of a value that is not \<open>null\<close> or
  \<open>undefined\<close>.
\<close>

fun object_keys :: "json \<Rightarrow> exn + string list" where
  "object_keys JUndefined = Inl TypeError"
| "object_keys JNull = Inl TypeError"
| "object_keys (JObj kvs) = Inr (own_keys kvs)"
| "object_keys (JArr xs) = Inr (map (\<lambda>i. digits i) [0..<length xs])"
| "object_keys (JStr s) = Inr (map (\<lambda>i. digits i) [0..<length s])"
| "object_keys v = Inr []"

text \<open>\<open>v[k]\<close> for a key \<open>k\<close> that \<open>Object.keys(v)\<close> lists, at its place \<open>i\<close> in that list.\<close>

fun element_at :: "json \<Rightarrow> nat \<Rightarrow> string \<Rightarrow> json" where
  "element_at (JObj kvs) i k = own kvs k"
| "element_at (JArr xs) i k = xs ! i"
| "element_at (JStr s) i k = JStr [s ! i]"
| "element_at v i k = JUndefined"

definition entries :: "json \<Rightarrow> exn + (string \<times> json) list" where
  "entries v = bindE (object_keys v) (\<lambda>ks. Inr (map (\<lambda>(i, k). (k, element_at v i k)) (enumerate 0 ks)))"

fun validateCspPolicy_keys ::
  "(json \<Rightarrow> exn + directives) \<Rightarrow> (string \<Rightarrow> bool) \<Rightarrow> (string \<times> json) list \<Rightarrow> collector \<Rightarrow> exn + collector" where
  "validateCspPolicy_keys parseCspPolicy CSP_KEYWORD_RE [] c = Inr c"
| "validateCspPolicy_keys parseCspPolicy CSP_KEYWORD_RE ((key, p) # kps) c =
     bindE (validateCspPolicyString parseCspPolicy CSP_KEYWORD_RE p (''content_security_policy.'' @ key) c)
       (validateCspPolicy_keys parseCspPolicy CSP_KEYWORD_RE kps)"

definition validateCspPolicy ::
  "(json \<Rightarrow> exn + directives) \<Rightarrow> (string \<Rightarrow> bool) \<Rightarrow> json \<Rightarrow> collector \<Rightarrow> exn + collector" where
  "validateCspPolicy parseCspPolicy CSP_KEYWORD_RE policy c =
     (case policy of
        JStr s \<Rightarrow> validateCspPolicyString parseCspPolicy CSP_KEYWORD_RE policy ''content_security_policy'' c
      | JUndefined \<Rightarrow> Inr c
      | JNull \<Rightarrow> Inr c
      | _ \<Rightarrow> bindE (entries policy) (\<lambda>kps. validateCspPolicy_keys parseCspPolicy CSP_KEYWORD_RE kps c))"

text \<open>
  Modelled from the spec: \<open>parseCspPolicy\<close> is not among the sources. The spec: it
  "parses one policy string into directive to token map (case-insensitive names,
  whitespace-delimited tokens)". Directives are separated by semicolons; of two
  directives of one name the later one is in the map. A policy that is not a string is
  not described by the spec: the model raises.
\<close>

fun split_where :: "(char \<Rightarrow> bool) \<Rightarrow> string \<Rightarrow> string list" where
  "split_where sep [] = [[]]"
| "split_where sep (c # cs) =
     (if sep c then [] # split_where sep cs
      else (case split_where sep cs of [] \<Rightarrow> [[c]] | w # ws \<Rightarrow> (c # w) # ws))"

definition tokens :: "string \<Rightarrow> string list" where
  "tokens s = filter (\<lambda>w. w \<noteq> []) (split_where is_space s)"

definition spec_parseCspPolicy :: "json \<Rightarrow> exn + directives" where
  "spec_parseCspPolicy policy =
     (case policy of
        JStr s \<Rightarrow>
          Inr (fold (\<lambda>d acc. case tokens d of [] \<Rightarrow> acc | n # vs \<Rightarrow> (toLowerCase n, vs) # acc)
                 (split_where (\<lambda>c. c = CHR '';'') s) [])
      | _ \<Rightarrow> Inl TypeError)"

text \<open>
  Modelled from the spec: \<open>CSP_KEYWORD_RE\<close> is not among the sources. The spec: a token is
  "a recognized safe keyword (self/none/nonce-/hash-/strict-dynamic forms)".
\<close>

definition spec_CSP_KEYWORD_RE :: "string \<Rightarrow> bool" where
  "spec_CSP_KEYWORD_RE v =
     (v = quoted ''self'' \<or> v = quoted ''none'' \<or> v = quoted ''strict-dynamic''
      \<or> startsWith v (CHR 0x27 # ''nonce-'') \<or> startsWith v (CHR 0x27 # ''sha256-'')
      \<or> startsWith v (CHR 0x27 # ''sha384-'') \<or> startsWith v (CHR 0x27 # ''sha512-''))"

section \<open>The parser's state\<close>

text \<open>
  The package's files, as the parser reads them: \<open>files\<close> are the keys of \<open>io.files\<close>
  in the order of \<open>Object.keys\<close> (every entry of \<open>io.files\<close> is an object, so
  \<open>io.files[p]\<close> is truthy exactly for these keys); \<open>getFileAsStream\<close> gives the chunks
  of a file's stream for a path and an encoding, or throws.
\<close>

record io =
  files :: "string list"
  getFileAsStream :: "string \<Rightarrow> string option \<Rightarrow> exn + string list"

record validator_options =
  privileged :: "bool option"
  enableBackgroundServiceWorker :: "bool option"

text \<open>
  The fields of \<open>ManifestJSONParser\<close>. \<open>collector\<close> is the collector passed to the
  constructor; \<open>io\<close> is \<open>None\<close> for \<open>null\<close>; \<open>restrictedPermissions\<close> is the \<open>Map\<close> of
  restricted permissions, in the order of its keys.
\<close>

record parser =
  parsedJSON :: json
  isValid :: bool
  collector :: collector
  selfHosted :: bool
  schemaValidatorOptions :: "validator_options option"
  isStaticTheme :: bool
  isLanguagePack :: bool
  isDictionary :: bool
  isSitePermission :: bool
  io :: "io option"
  isAlreadySigned :: bool
  isPrivilegedAddon :: bool
  restrictedPermissions :: "(string \<times> string) list"

text \<open>
  The addon kind, lines 117-136 of the constructor: the first of the keys \<open>theme\<close>,
  \<open>langpack_id\<close>, \<open>dictionaries\<close>, \<open>site_permissions\<close> that the manifest has decides.
\<close>

definition detect_kind :: "parser \<Rightarrow> exn + parser" where
  "detect_kind p =
     bindE (hasOwnProperty (parsedJSON p) ''theme'') (\<lambda>theme.
     let p0 = p\<lparr>isStaticTheme := False, isLanguagePack := False, isDictionary := False,
                  isSitePermission := False\<rparr>
     in if theme then Inr (p0\<lparr>isStaticTheme := True\<rparr>)
        else bindE (hasOwnProperty (parsedJSON p) ''langpack_id'') (\<lambda>langpack.
          if langpack then Inr (p0\<lparr>isLanguagePack := True\<rparr>)
          else bindE (hasOwnProperty (parsedJSON p) ''dictionaries'') (\<lambda>dict.
            if dict then Inr (p0\<lparr>isDictionary := True\<rparr>)
            else bindE (hasOwnProperty (parsedJSON p) ''site_permissions'') (\<lambda>site.
              if site then Inr (p0\<lparr>isSitePermission := True\<rparr>) else Inr p0))))"

text \<open>
  \<open>doc.applications && doc.applications.gecko && doc.applications.gecko.k\<close>: the first
  falsy value of the chain, or the last value.
\<close>

definition gecko_property :: "json \<Rightarrow> string \<Rightarrow> exn + json" where
  "gecko_property doc k =
     bindE (get doc ''applications'') (\<lambda>a.
       if \<not> truthy a then Inr a
       else bindE (get a ''gecko'') (\<lambda>g.
         if \<not> truthy g then Inr g else get g k))"

section \<open>The rule for \<open>strict_max_version\<close>\<close>

text \<open>Lines 615-629 of \<open>_validate\<close>.\<close>

definition validate_strict_max_version :: "parser \<Rightarrow> exn + parser" where
  "validate_strict_max_version p =
     (if \<not> isLanguagePack p then
        bindE (gecko_property (parsedJSON p) ''strict_max_version'') (\<lambda>v.
          if truthy v then
            (if isDictionary p
             then Inr (p\<lparr>isValid := False, collector := addError STRICT_MAX_VERSION (collector p)\<rparr>)
             else Inr (p\<lparr>collector := addNotice STRICT_MAX_VERSION (collector p)\<rparr>))
          else Inr p)
      else Inr p)"

text \<open>A parser before the constructor has looked at the manifest.\<close>

definition new_parser :: "json \<Rightarrow> collector \<Rightarrow> parser" where
  "new_parser doc c =
     \<lparr>parsedJSON = doc, isValid = True, collector = c, selfHosted = False,
      schemaValidatorOptions = None, isStaticTheme = False, isLanguagePack = False,
      isDictionary = False, isSitePermission = False, io = None, isAlreadySigned = False,
      isPrivilegedAddon = False, restrictedPermissions = []\<rparr>"

section \<open>Classification of the schema issues\<close>

text \<open>
  \<open>errorLookup\<close> (lines 238-389). Of \<open>const\<close> and \<open>messages\<close>, which are not among the
  sources, it reads the table \<open>DEPRECATED_MANIFEST_PROPERTIES\<close> and the message the table
  names (\<open>None\<close>: the path is not in the table; otherwise what \<open>messages[...]\<close> gives),
  \<open>messages.MANIFEST_FIELD_DEPRECATED\<close>, and the two patterns
  \<open>PERMS_DATAPATH_REGEX\<close> and \<open>INSTALL_ORIGINS_DATAPATH_REGEX\<close>: parameters. Modelled from
  the spec: a match of one of the patterns ("a permissions-array-element or
  install-origins-array-element pattern") gives the field, one of \<open>permissions\<close>,
  \<open>optional_permissions\<close>, \<open>host_permissions\<close> and \<open>install_origins\<close>, and the location.
\<close>

datatype 'a nullable = Undefined | Null | Value 'a

datatype datapath_field = Permissions | Optional_permissions | Host_permissions | Install_origins

fun field_name :: "datapath_field \<Rightarrow> string" where
  "field_name Permissions = ''permissions''"
| "field_name Optional_permissions = ''optional_permissions''"
| "field_name Host_permissions = ''host_permissions''"
| "field_name Install_origins = ''install_origins''"

text \<open>\<open>messages[`MANIFEST_${match[1].toUpperCase()}`]\<close>.\<close>

fun field_message :: "datapath_field \<Rightarrow> msg" where
  "field_message Permissions = MANIFEST_PERMISSIONS"
| "field_message Optional_permissions = MANIFEST_OPTIONAL_PERMISSIONS"
| "field_message Host_permissions = MANIFEST_HOST_PERMISSIONS"
| "field_message Install_origins = MANIFEST_INSTALL_ORIGINS"

record lookup_consts =
  DEPRECATED_MANIFEST_PROPERTIES :: "string \<Rightarrow> msg nullable option"
  MANIFEST_FIELD_DEPRECATED :: "msg nullable"
  PERMS_DATAPATH_REGEX :: "string \<Rightarrow> (datapath_field \<times> string) option"
  INSTALL_ORIGINS_DATAPATH_REGEX :: "string \<Rightarrow> (datapath_field \<times> string) option"

text \<open>
  \<open>oneLine\<close> of the package \<open>common-tags\<close>: every line break with the white space
  after it becomes one space, and the result is trimmed.
\<close>

fun collapse_lines :: "bool \<Rightarrow> string \<Rightarrow> string" where
  "collapse_lines skipping [] = []"
| "collapse_lines skipping (ch # cs) =
     (if ch = CHR 0x0A then (if skipping then collapse_lines True cs else CHR '' '' # collapse_lines True cs)
      else if skipping \<and> is_space ch then collapse_lines True cs
      else ch # collapse_lines False cs)"

definition trim :: "string \<Rightarrow> string" where
  "trim s = rev (dropWhile is_space (rev (dropWhile is_space s)))"

definition oneLine :: "string \<Rightarrow> string" where
  "oneLine s = trim (collapse_lines False s)"

text \<open>A template literal's text for \<open>error.message\<close>, which may be \<open>undefined\<close>.\<close>

definition message_text :: "schema_error \<Rightarrow> string" where
  "message_text e = (case message e of None \<Rightarrow> ''undefined'' | Some t \<Rightarrow> t)"

text \<open>
  The overrides: the message (\<open>None\<close>: the text of \<open>baseObject\<close> itself), the
  description when one is set, and the instance path.
\<close>

type_synonym overrides = "string option \<times> arg option \<times> string"

definition from_base :: "msg \<Rightarrow> string \<Rightarrow> msg \<times> overrides" where
  "from_base baseObject path' = (baseObject, (None, Some (OverrideDescriptionOf (code baseObject)), path'))"

text \<open>
  Lines 238-372: the base message and the overrides, before the filter for manifest
  version 2. Line 248 replaces the message of the issue.
\<close>

definition errorLookup_base :: "lookup_consts \<Rightarrow> parser \<Rightarrow> schema_error \<Rightarrow> exn + msg \<times> overrides" where
  "errorLookup_base K p error0 =
     (let error = (case message error0 of
                     Some t \<Rightarrow> if t \<noteq> [] \<and> toLowerCase t = ''must match a schema in anyof''
                               then error0\<lparr>message := Some ''is not a valid key or has invalid extra properties''\<rparr>
                               else error0
                   | None \<Rightarrow> error0);
          path' = instancePath error;
          initial = (Some ([CHR 0x22] @ (if path' = [] then ''/'' else path') @ [CHR 0x22] @ '' '' @ message_text error),
                     None, path');
          not_string = (data error \<noteq> JUndefined \<and> (case data error of JStr t \<Rightarrow> False | _ \<Rightarrow> True));
          bad = Some (''Permissions '' @ message_text error @ ''.'')
      in bindE
          (if keyword error = REQUIRED then Inr (MANIFEST_FIELD_REQUIRED, initial)
           else if keyword error = DEPRECATED then
             (case DEPRECATED_MANIFEST_PROPERTIES K path' of
                None \<Rightarrow> Inr (JSON_INVALID, initial)
              | Some found \<Rightarrow>
                  (case (case found of Null \<Rightarrow> MANIFEST_FIELD_DEPRECATED K | _ \<Rightarrow> found) of
                     Value baseObject \<Rightarrow>
                       Inr (baseObject,
                            (None,
                             Some (if description_null baseObject then OverrideDescription (message error)
                                   else OverrideDescriptionOf (code baseObject)),
                             path'))
                   | _ \<Rightarrow> Inl TypeError))
           else if keyword error = MIN_MANIFEST_VERSION \<or> keyword error = MAX_MANIFEST_VERSION then
             (if PERMS_DATAPATH_REGEX K path' \<noteq> None
              then Inr (from_base (manifestPermissionUnsupported (data error) error) path')
              else if path' = ''/applications'' then Inr (from_base APPLICATIONS_INVALID path')
              else Inr (from_base (manifestFieldUnsupported path' error) path'))
           else if startsWith path' ''/permissions''
                   \<and> keyword error = VALIDATE_PRIVILEGED_PERMISSIONS
                   \<and> privilegedPermissions error \<noteq> None then
             (if isPrivilegedAddon p
              then (if privilegedPermissions error \<noteq> Some []
                    then Inr (from_base (mozillaAddonsPermissionRequired error) path')
                    else Inr (from_base (privilegedFeaturesRequired error) path'))
              else Inr (from_base (manifestPermissionsPrivileged error) path'))
           else if startsWith path' ''/permissions'' \<and> not_string
             then Inr (MANIFEST_BAD_PERMISSION, (bad, None, path'))
           else if startsWith path' ''/optional_permissions'' \<and> not_string
             then Inr (MANIFEST_BAD_OPTIONAL_PERMISSION, (bad, None, path'))
           else if startsWith path' ''/host_permissions'' \<and> not_string
             then Inr (MANIFEST_BAD_HOST_PERMISSION, (bad, None, path'))
           else if keyword error = TYPE_KEYWORD then Inr (MANIFEST_FIELD_INVALID, initial)
           else if keyword error = PRIVILEGED then
             (if isPrivilegedAddon p
              then Inr (from_base (mozillaAddonsPermissionRequired error) path')
              else Inr (from_base (manifestFieldPrivileged error) path'))
           else Inr (JSON_INVALID, initial))
          (\<lambda>(baseObject, (omessage, odescription, opath)).
             case (case PERMS_DATAPATH_REGEX K path' of
                     Some m \<Rightarrow> Some m
                   | None \<Rightarrow> INSTALL_ORIGINS_DATAPATH_REGEX K path') of
               Some (field, location) \<Rightarrow>
                 if code baseObject \<noteq> code MANIFEST_BAD_PERMISSION
                    \<and> code baseObject \<noteq> code MANIFEST_BAD_OPTIONAL_PERMISSION
                    \<and> code baseObject \<noteq> code MANIFEST_BAD_HOST_PERMISSION
                    \<and> code baseObject \<noteq> MANIFEST_PERMISSION_UNSUPPORTED
                 then Inr (field_message field,
                           (Some (oneLine (''/'' @ field_name field @ '': Invalid '' @ field_name field
                                   @ [CHR 0x0A] @ ''          '' @ [CHR 0x22] @ js_String (data error)
                                   @ [CHR 0x22] @ '' at '' @ location @ ''.'')),
                            odescription, opath))
                 else Inr (baseObject, (omessage, odescription, opath))
             | None \<Rightarrow> Inr (baseObject, (omessage, odescription, opath))))"

text \<open>\<open>{...baseObject, ...overrides}\<close>.\<close>

definition with_overrides :: "msg \<Rightarrow> overrides \<Rightarrow> msg" where
  "with_overrides baseObject ov =
     (case ov of (omessage, odescription, opath) \<Rightarrow>
        Msg (code baseObject)
          (args baseObject
           @ (case omessage of Some t \<Rightarrow> [OverrideMessage t] | None \<Rightarrow> [])
           @ (case odescription of Some d \<Rightarrow> [d] | None \<Rightarrow> [])
           @ [OverrideInstancePath opath])
          (description_null baseObject))"

text \<open>Lines 374-388: the codes that are never reported for manifest version 2.\<close>

definition ignoredOnMV2 :: "string list" where
  "ignoredOnMV2 = [code MANIFEST_HOST_PERMISSIONS, code MANIFEST_BAD_HOST_PERMISSION]"

definition errorLookup :: "lookup_consts \<Rightarrow> parser \<Rightarrow> schema_error \<Rightarrow> exn + msg option" where
  "errorLookup K p error =
     bindE (errorLookup_base K p error) (\<lambda>(baseObject, ov).
     bindE (get (parsedJSON p) ''manifest_version'') (\<lambda>manifest_version.
       if manifest_version = JNum 2 \<and> code baseObject \<in> set ignoredOnMV2
       then Inr None
       else Inr (Some (with_overrides baseObject ov))))"

text \<open>
  The schema validation of \<open>_validate\<close> (lines 391-469). The validators of
  \<open>schema/validator\<close> are not among the sources: \<open>validate\<close> is a parameter that gives,
  for the validator of the addon's kind, the manifest and the options, the verdict and
  the issues (\<open>validate.errors\<close>).
\<close>

datatype validator =
    validateAddon
  | validateStaticTheme
  | validateLangPack
  | validateDictionary
  | validateSitePermission

definition warning_codes :: "parser \<Rightarrow> string list" where
  "warning_codes p =
     [code MANIFEST_PERMISSIONS, code MANIFEST_OPTIONAL_PERMISSIONS, code MANIFEST_HOST_PERMISSIONS,
      MANIFEST_PERMISSION_UNSUPPORTED, MANIFEST_FIELD_UNSUPPORTED]
     @ (if isAlreadySigned p then [MANIFEST_PERMISSIONS_PRIVILEGED, MANIFEST_FIELD_PRIVILEGED] else [])"

text \<open>The callback of \<open>validate.errors.forEach\<close> (lines 448-468), for one issue.\<close>

definition issue_step :: "lookup_consts \<Rightarrow> schema_error \<Rightarrow> parser \<Rightarrow> exn + parser" where
  "issue_step K error p =
     bindE (errorLookup K p error) (\<lambda>found.
       case found of
         None \<Rightarrow> Inr p
       | Some m \<Rightarrow>
           let p1 = (if code m \<in> set (warning_codes p)
                     then p\<lparr>collector := addWarning m (collector p)\<rparr>
                     else p\<lparr>collector := addError m (collector p)\<rparr>)
           in Inr (if code m = code MANIFEST_BAD_PERMISSION then p1\<lparr>isValid := False\<rparr> else p1))"

fun issues_loop :: "lookup_consts \<Rightarrow> schema_error list \<Rightarrow> parser \<Rightarrow> exn + parser" where
  "issues_loop K [] p = Inr p"
| "issues_loop K (error # rest) p = bindE (issue_step K error p) (issues_loop K rest)"

definition chosen_validator :: "parser \<Rightarrow> validator" where
  "chosen_validator p =
     (if isStaticTheme p then validateStaticTheme
      else if isLanguagePack p then validateLangPack
      else if isDictionary p then validateDictionary
      else if isSitePermission p then validateSitePermission
      else validateAddon)"

definition validate_schema ::
  "lookup_consts \<Rightarrow> (validator \<Rightarrow> json \<Rightarrow> validator_options option \<Rightarrow> bool \<times> schema_error list)
     \<Rightarrow> parser \<Rightarrow> exn + parser" where
  "validate_schema K validate p =
     (case validate (chosen_validator p) (parsedJSON p) (schemaValidatorOptions p) of
        (valid, issues) \<Rightarrow>
          if \<not> valid then issues_loop K issues (p\<lparr>isValid := valid\<rparr>) else Inr (p\<lparr>isValid := valid\<rparr>))"

text \<open>
  What the callback adds to the warnings and to the errors for one issue: the message
  that \<open>errorLookup\<close> returns for it, if any, on the side that the list of warning
  codes decides.
\<close>

definition issue_warnings :: "lookup_consts \<Rightarrow> parser \<Rightarrow> schema_error \<Rightarrow> msg list" where
  "issue_warnings K p error =
     (case errorLookup K p error of
        Inr (Some m) \<Rightarrow> if code m \<in> set (warning_codes p) then [m] else []
      | _ \<Rightarrow> [])"

definition issue_errors :: "lookup_consts \<Rightarrow> parser \<Rightarrow> schema_error \<Rightarrow> msg list" where
  "issue_errors K p error =
     (case errorLookup K p error of
        Inr (Some m) \<Rightarrow> if code m \<in> set (warning_codes p) then [] else [m]
      | _ \<Rightarrow> [])"

text \<open>
  Stand-ins for the two patterns in the examples: a path \<open>/field/d...\<close> with a digit
  \<open>d\<close> matches, with the location \<open>d\<close>. An issue for \<open>host_permissions\<close>, and a manifest
  of version 2 and one of version 3.
\<close>

definition element_path :: "datapath_field \<Rightarrow> string \<Rightarrow> (datapath_field \<times> string) option" where
  "element_path field path' =
     (let prefix = ''/'' @ field_name field @ ''/''
      in if startsWith path' prefix \<and> length prefix < length path' \<and> is_digit (path' ! length prefix)
         then Some (field, [path' ! length prefix]) else None)"

definition example_consts :: lookup_consts where
  "example_consts =
     \<lparr>DEPRECATED_MANIFEST_PROPERTIES = (\<lambda>path'. None),
      MANIFEST_FIELD_DEPRECATED = Undefined,
      PERMS_DATAPATH_REGEX = (\<lambda>path'.
         case element_path Permissions path' of
           Some m \<Rightarrow> Some m
         | None \<Rightarrow> (case element_path Optional_permissions path' of
                      Some m \<Rightarrow> Some m
                    | None \<Rightarrow> element_path Host_permissions path')),
      INSTALL_ORIGINS_DATAPATH_REGEX = element_path Install_origins\<rparr>"

definition host_permission_issue :: schema_error where
  "host_permission_issue =
     \<lparr>keyword = OTHER_KEYWORD ''anyOf'', instancePath = ''/host_permissions/0'',
      message = Some ''must match a schema in anyOf'', data = JStr ''foo'',
      privilegedPermissions = None\<rparr>"

definition host_permission_text :: string where
  "host_permission_text =
     ''/host_permissions: Invalid host_permissions '' @ [CHR 0x22] @ ''foo'' @ [CHR 0x22] @ '' at 0.''"

definition versioned_parser :: "int \<Rightarrow> parser" where
  "versioned_parser n =
     new_parser (JObj [(''manifest_version'', JNum n), (''name'', JStr ''x''), (''version'', JStr ''1.0''),
                       (''host_permissions'', JArr [JStr ''foo''])]) empty_collector"

text \<open>
  A stand-in for the validators in the examples: the manifest is invalid, with the one
  issue for \<open>host_permissions\<close>.
\<close>

definition example_verdict :: "validator \<Rightarrow> json \<Rightarrow> validator_options option \<Rightarrow> bool \<times> schema_error list" where
  "example_verdict v doc opts = (False, [host_permission_issue])"

section \<open>Metadata\<close>

text \<open>
  \<open>getAddonId\<close> (lines 1126-1134): \<open>applications.gecko.id\<close>, and \<open>null\<close> when it is
  \<open>undefined\<close> or when reading it throws.
\<close>

definition getAddonId :: "json \<Rightarrow> json" where
  "getAddonId doc =
     (case bindE (get doc ''applications'') (\<lambda>a. bindE (get a ''gecko'') (\<lambda>g. get g ''id'')) of
        Inl e \<Rightarrow> JNull
      | Inr JUndefined \<Rightarrow> JNull
      | Inr v \<Rightarrow> v)"

text \<open>
  \<open>getExperimentApiPaths\<close> (lines 1136-1176). \<open>v?.paths ?? []\<close>; the spread \<open>[...v]\<close> of
  an array or a string (anything else is not iterable); \<open>Set.add\<close> on a set kept as the
  list of its elements in the order of insertion.
\<close>

definition nullish :: "json \<Rightarrow> bool" where
  "nullish v = (v = JUndefined \<or> v = JNull)"

definition optional_paths :: "json \<Rightarrow> json" where
  "optional_paths v =
     (case v of
        JObj kvs \<Rightarrow> (if nullish (own kvs ''paths'') then JArr [] else own kvs ''paths'')
      | _ \<Rightarrow> JArr [])"

fun spread :: "json \<Rightarrow> exn + json list" where
  "spread (JArr xs) = Inr xs"
| "spread (JStr s) = Inr (map (\<lambda>ch. JStr [ch]) s)"
| "spread v = Inl TypeError"

definition set_add :: "string \<Rightarrow> string list \<Rightarrow> string list" where
  "set_add x xs = (if x \<in> set xs then xs else xs @ [x])"

text \<open>The elements \<open>p\<close> with \<open>Array.isArray(p) && p.length\<close>, each joined with a dot.\<close>

fun joined_paths :: "json list \<Rightarrow> string list" where
  "joined_paths [] = []"
| "joined_paths (JArr xs # ps) = (if xs \<noteq> [] then js_join ''.'' xs # joined_paths ps else joined_paths ps)"
| "joined_paths (v # ps) = joined_paths ps"

text \<open>The paths of one experiment API: the body of the loop over the keys.\<close>

definition api_paths :: "json \<Rightarrow> exn + string list" where
  "api_paths api =
     bindE (get api ''child'') (\<lambda>child.
     bindE (get api ''parent'') (\<lambda>parent.
     bindE (spread (optional_paths parent)) (\<lambda>parentPaths.
     bindE (spread (optional_paths child)) (\<lambda>childPaths.
       Inr (joined_paths (parentPaths @ childPaths))))))"

fun experiment_loop :: "(string \<times> json) list \<Rightarrow> string list \<Rightarrow> exn + string list" where
  "experiment_loop [] apiPaths = Inr apiPaths"
| "experiment_loop ((key, api) # rest) apiPaths =
     bindE (api_paths api) (\<lambda>ps. experiment_loop rest (fold set_add ps apiPaths))"

definition getExperimentApiPaths :: "json \<Rightarrow> exn + string list" where
  "getExperimentApiPaths doc =
     bindE (get doc ''experiment_apis'') (\<lambda>experiment_apis.
       if truthy experiment_apis
       then bindE (entries experiment_apis) (\<lambda>apis. experiment_loop apis [])
       else Inr [])"

text \<open>
  \<open>getMetadata\<close> (lines 1178-1191). \<open>PACKAGE_EXTENSION\<close> is a constant of \<open>const\<close>, which
  is not among the sources: the spec calls it a fixed tag.
\<close>

definition PACKAGE_EXTENSION :: string where
  "PACKAGE_EXTENSION = ''PACKAGE_EXTENSION''"

record metadata =
  addon_id :: json
  manifestVersion :: json
  name :: json
  addon_type :: string
  version :: json
  firefoxMinVersion :: json
  experimentApiPaths :: "string list"

definition getMetadata :: "json \<Rightarrow> exn + metadata" where
  "getMetadata doc =
     bindE (get doc ''manifest_version'') (\<lambda>mv.
     bindE (get doc ''name'') (\<lambda>n.
     bindE (get doc ''version'') (\<lambda>ver.
     bindE (gecko_property doc ''strict_min_version'') (\<lambda>fmv.
     bindE (getExperimentApiPaths doc) (\<lambda>paths.
       Inr \<lparr>addon_id = getAddonId doc, manifestVersion = mv, name = n,
            addon_type = PACKAGE_EXTENSION, version = ver, firefoxMinVersion = fmv,
            experimentApiPaths = paths\<rparr>)))))"

text \<open>
  The spec's words for the metadata, to compare \<open>getMetadata\<close> with. \<open>path_value\<close> is
  the value a manifest declares at a path of keys (\<open>JUndefined\<close> when it declares
  none). \<open>spec_experimentApiPaths\<close> is "the set of dot-joined strings flattened from
  every declared experimental-API parent/child path array": the declared APIs are the
  entries of a truthy \<open>experiment_apis\<close>.
\<close>

fun path_value :: "json \<Rightarrow> string list \<Rightarrow> json" where
  "path_value v [] = v"
| "path_value (JObj kvs) (k # ks) = path_value (own kvs k) ks"
| "path_value v (k # ks) = JUndefined"

definition declared_apis :: "json \<Rightarrow> json set" where
  "declared_apis doc =
     (if truthy (path_value doc [''experiment_apis''])
      then {api. \<exists>kvs key. entries (path_value doc [''experiment_apis'']) = Inr kvs \<and> (key, api) \<in> set kvs}
      else {})"

definition declared_path :: "json \<Rightarrow> json list \<Rightarrow> bool" where
  "declared_path api xs =
     (xs \<noteq> [] \<and> (\<exists>ps. (path_value api [''parent'', ''paths''] = JArr ps
                        \<or> path_value api [''child'', ''paths''] = JArr ps) \<and> JArr xs \<in> set ps))"

definition spec_experimentApiPaths :: "json \<Rightarrow> string set" where
  "spec_experimentApiPaths doc =
     {js_join ''.'' xs | xs api. api \<in> declared_apis doc \<and> declared_path api xs}"

text \<open>An example manifest with two experiment APIs.\<close>

definition experiment_manifest :: json where
  "experiment_manifest =
     JObj [(''manifest_version'', JNum 2), (''name'', JStr ''x''), (''version'', JStr ''1.0''),
       (''applications'', JObj [(''gecko'', JObj [(''id'', JStr ''a@b''), (''strict_min_version'', JStr ''78.0'')])]),
       (''experiment_apis'', JObj
          [(''one'', JObj [(''parent'', JObj [(''paths'', JArr [JArr [JStr ''some'', JStr ''name''], JArr []])])]),
           (''two'', JObj [(''child'', JObj [(''paths'', JArr [JArr [JStr ''other'']])]),
                          (''parent'', JObj [(''paths'', JArr [JArr [JStr ''some'', JStr ''name'']])])])])]"

text \<open>Two manifests without a string id or a minimum version.\<close>

definition plain_manifest :: json where
  "plain_manifest = JObj [(''manifest_version'', JNum 2), (''name'', JStr ''x''), (''version'', JStr ''1.0'')]"

definition numeric_id_manifest :: json where
  "numeric_id_manifest =
     JObj [(''manifest_version'', JNum 2), (''name'', JStr ''x''), (''version'', JStr ''1.0''),
       (''applications'', JObj [(''gecko'', JObj [(''id'', JNum 42), (''strict_min_version'', JNum 60)])])]"

section \<open>Files of the package\<close>

text \<open>
  \<open>validateFileExistsInPackage\<close> (lines 1002-1014). \<open>normalizePath\<close> (of \<open>utils\<close>) is
  not among the sources: it is a parameter, and it may throw. Reading \<open>this.io.files\<close>
  throws when \<open>io\<close> is \<open>null\<close>.
\<close>

definition validateFileExistsInPackage ::
  "(json \<Rightarrow> exn + string) \<Rightarrow> json \<Rightarrow> string \<Rightarrow> (string \<Rightarrow> string \<Rightarrow> msg) \<Rightarrow> parser
     \<Rightarrow> exn + bool \<times> parser" where
  "validateFileExistsInPackage normalizePath filePath kind messageFunc p =
     bindE (normalizePath filePath) (\<lambda>path'.
       case io p of
         None \<Rightarrow> Inl TypeError
       | Some i \<Rightarrow>
           if path' \<notin> set (files i)
           then Inr (False, p\<lparr>collector := addError (messageFunc path' kind) (collector p),
                                isValid := False\<rparr>)
           else Inr (True, p))"

section \<open>The rule for dictionaries\<close>

text \<open>
  Lines 567-596 of \<open>_validate\<close>. \<open>filepath.replace(/\\.dic$/, '.aff')\<close> throws when
  \<open>filepath\<close> is not a string.
\<close>

definition dic_to_aff :: "string \<Rightarrow> string" where
  "dic_to_aff s = (if endsWith s ''.dic'' then take (length s - 4) s @ ''.aff'' else s)"

fun replace_dic :: "json \<Rightarrow> exn + json" where
  "replace_dic (JStr s) = Inr (JStr (dic_to_aff s))"
| "replace_dic v = Inl TypeError"

fun dictionaries_loop :: "(json \<Rightarrow> exn + string) \<Rightarrow> (string \<times> json) list \<Rightarrow> parser \<Rightarrow> exn + parser" where
  "dictionaries_loop normalizePath [] p = Inr p"
| "dictionaries_loop normalizePath ((locale, filepath) # rest) p =
     bindE (validateFileExistsInPackage normalizePath filepath ''binary'' manifestDictionaryFileMissing p)
       (\<lambda>(found, p1).
     bindE (replace_dic filepath) (\<lambda>aff.
     bindE (validateFileExistsInPackage normalizePath aff ''binary'' manifestDictionaryFileMissing p1)
       (\<lambda>(found', p2). dictionaries_loop normalizePath rest p2)))"

definition validate_dictionaries :: "(json \<Rightarrow> exn + string) \<Rightarrow> parser \<Rightarrow> exn + parser" where
  "validate_dictionaries normalizePath p =
     bindE (get (parsedJSON p) ''dictionaries'') (\<lambda>dictionaries.
       if truthy dictionaries then
         let p1 = (if \<not> truthy (getAddonId (parsedJSON p))
                   then p\<lparr>collector := addError MANIFEST_DICT_MISSING_ID (collector p), isValid := False\<rparr>
                   else p)
         in bindE (object_keys dictionaries) (\<lambda>ks.
              let numberOfDictionaries = length ks;
                  p2 = (if numberOfDictionaries < 1
                        then p1\<lparr>collector := addError MANIFEST_EMPTY_DICTS (collector p1), isValid := False\<rparr>
                        else if numberOfDictionaries > 1
                        then p1\<lparr>collector := addError MANIFEST_MULTIPLE_DICTS (collector p1), isValid := False\<rparr>
                        else p1)
              in bindE (entries dictionaries) (\<lambda>es. dictionaries_loop normalizePath es p2))
       else Inr p)"

text \<open>
  The errors the loop is to emit for one entry of \<open>dictionaries\<close>, with the package's
  \<open>files\<close>: one for the declared path when it is absent, one for its \<open>.aff\<close> sibling
  when that is absent. \<open>normalized\<close> reads a path that \<open>normalizePath\<close> returns.
\<close>

definition normalized :: "(json \<Rightarrow> exn + string) \<Rightarrow> json \<Rightarrow> string" where
  "normalized normalizePath v = (case normalizePath v of Inr q \<Rightarrow> q | Inl e \<Rightarrow> [])"

definition missing_file :: "(json \<Rightarrow> exn + string) \<Rightarrow> string list \<Rightarrow> json \<Rightarrow> msg list" where
  "missing_file normalizePath fs v =
     (if normalized normalizePath v \<in> set fs then []
      else [manifestDictionaryFileMissing (normalized normalizePath v) ''binary''])"

fun dictionary_errors :: "(json \<Rightarrow> exn + string) \<Rightarrow> string list \<Rightarrow> string \<times> json \<Rightarrow> msg list" where
  "dictionary_errors normalizePath fs (locale, JStr s) =
     missing_file normalizePath fs (JStr s) @ missing_file normalizePath fs (JStr (dic_to_aff s))"
| "dictionary_errors normalizePath fs (locale, v) = []"

text \<open>
  The entries for which the loop does not throw: every declared path is a string, and
  \<open>normalizePath\<close> returns for it and for its \<open>.aff\<close> sibling.
\<close>

definition string_paths :: "(json \<Rightarrow> exn + string) \<Rightarrow> (string \<times> json) list \<Rightarrow> bool" where
  "string_paths normalizePath es =
     list_all (\<lambda>(k, v). case v of
        JStr s \<Rightarrow> (case normalizePath (JStr s) of Inr q \<Rightarrow> True | Inl e \<Rightarrow> False)
                 \<and> (case normalizePath (JStr (dic_to_aff s)) of Inr q \<Rightarrow> True | Inl e \<Rightarrow> False)
      | _ \<Rightarrow> False) es"

text \<open>
  A stand-in for \<open>normalizePath\<close> in the examples: a path that is a string of the package
  already, unchanged. A dictionary's manifest and package.
\<close>

fun plain_normalizePath :: "json \<Rightarrow> exn + string" where
  "plain_normalizePath (JStr s) = Inr s"
| "plain_normalizePath v = Inr (js_String v)"

definition no_stream :: "string \<Rightarrow> string option \<Rightarrow> exn + string list" where
  "no_stream path' encoding = Inl (Thrown ''no such file'')"

definition two_dictionaries_manifest :: json where
  "two_dictionaries_manifest =
     JObj [(''dictionaries'', JObj [(''fr'', JStr ''fr.dic''), (''de'', JStr ''dict/de.dic'')])]"

definition no_dictionaries_manifest :: json where
  "no_dictionaries_manifest =
     JObj [(''dictionaries'', JObj []), (''applications'', JObj [(''gecko'', JObj [(''id'', JStr ''a@b'')])])]"

definition dictionary_package :: io where
  "dictionary_package = \<lparr>files = [''manifest.json'', ''fr.dic'', ''fr.aff'', ''dict/de.dic''],
                          getFileAsStream = no_stream\<rparr>"

definition two_dictionaries_parser :: parser where
  "two_dictionaries_parser = (new_parser two_dictionaries_manifest empty_collector)\<lparr>io := Some dictionary_package\<rparr>"

definition no_dictionaries_parser :: parser where
  "no_dictionaries_parser = (new_parser no_dictionaries_manifest empty_collector)\<lparr>io := Some dictionary_package\<rparr>"

section \<open>The rule for locales\<close>

text \<open>
  Lines 663-712 of \<open>_validate\<close>. Modelled from the spec: the constants
  \<open>LOCALES_DIRECTORY\<close> and \<open>MESSAGES_JSON\<close> of \<open>const\<close> are not among the sources; the
  spec's package has \<open>_locales/fr/messages.json\<close>.
\<close>

definition LOCALES_DIRECTORY :: string where
  "LOCALES_DIRECTORY = ''_locales''"

definition MESSAGES_JSON :: string where
  "MESSAGES_JSON = ''messages.json''"

text \<open>
  The two regular expressions. A dot of a pattern matches every character but a line
  terminator (of the characters of a \<open>string\<close>: line feed and carriage return).

  \<open>localeDirRe\<close> is \<open>^_locales/(.*?)/\<close>: the path starts with \<open>_locales/\<close>, a slash
  follows, and no line terminator stands before the first such slash; the group is
  the text before that slash.

  \<open>localeFileRe\<close> is \<open>^_locales/.*?/messages.json$\<close>, the dot of \<open>messages.json\<close> not
  escaped: the path starts with \<open>_locales/\<close>, what follows ends with a slash and a
  text that \<open>messages.json\<close> matches as a pattern, and no line terminator stands
  before that slash.
\<close>

definition line_terminator :: "char \<Rightarrow> bool" where
  "line_terminator ch = (ch = CHR 0x0A \<or> ch = CHR 0x0D)"

fun pattern_match :: "string \<Rightarrow> string \<Rightarrow> bool" where
  "pattern_match [] [] = True"
| "pattern_match (pc # pcs) (ch # chs) =
     ((if pc = CHR ''.'' then \<not> line_terminator ch else ch = pc) \<and> pattern_match pcs chs)"
| "pattern_match pcs chs = False"

definition localeDirRe :: "string \<Rightarrow> string option" where
  "localeDirRe s =
     (if startsWith s (LOCALES_DIRECTORY @ ''/'') then
        (let rest = drop (length (LOCALES_DIRECTORY @ ''/'')) s;
             group = takeWhile (\<lambda>ch. ch \<noteq> CHR ''/'') rest
         in if length group < length rest \<and> \<not> list_ex line_terminator group
            then Some group else None)
      else None)"

definition localeFileRe :: "string \<Rightarrow> bool" where
  "localeFileRe s =
     (startsWith s (LOCALES_DIRECTORY @ ''/'') \<and>
      (let rest = drop (length (LOCALES_DIRECTORY @ ''/'')) s;
           n = length (''/'' @ MESSAGES_JSON)
       in n \<le> length rest
          \<and> \<not> list_ex line_terminator (take (length rest - n) rest)
          \<and> pattern_match (''/'' @ MESSAGES_JSON) (drop (length rest - n) rest)))"








section \<open>Restricted permissions\<close>

text \<open>
  \<open>validateRestrictedPermissions\<close> (lines 784-816). \<open>mozCompare\<close> is the function of the
  package \<open>addons-moz-compare\<close>, outside the repository: a parameter. The \<open>Map\<close>
  \<open>restrictedPermissions\<close> has each key once; the loop visits its entries in order.
\<close>

definition restricted_step ::
  "(string \<Rightarrow> string \<Rightarrow> int) \<Rightarrow> string list \<Rightarrow> string \<Rightarrow> string \<times> string \<Rightarrow> parser \<Rightarrow> parser" where
  "restricted_step mozCompare permissionsInManifest minVersionSetInManifest entry p =
     (case entry of (permission, permMinVersion) \<Rightarrow>
        if permission \<in> set permissionsInManifest
           \<and> (minVersionSetInManifest = [] \<or> mozCompare minVersionSetInManifest permMinVersion = - 1)
        then p\<lparr>collector := addError (makeRestrictedPermission permission permMinVersion) (collector p),
               isValid := False\<rparr>
        else p)"

definition validateRestrictedPermissions :: "(string \<Rightarrow> string \<Rightarrow> int) \<Rightarrow> parser \<Rightarrow> exn + parser" where
  "validateRestrictedPermissions mozCompare p =
     bindE (get (parsedJSON p) ''permissions'') (\<lambda>perms.
       let permissions = (case perms of JArr xs \<Rightarrow> xs | _ \<Rightarrow> []);
           permissionsInManifest = map (\<lambda>permission. toLowerCase (js_String permission)) permissions
       in if permissionsInManifest = [] then Inr p
          else bindE (getMetadata (parsedJSON p)) (\<lambda>m.
            let minVersionSetInManifest = js_String (firefoxMinVersion m)
            in Inr (fold (restricted_step mozCompare permissionsInManifest minVersionSetInManifest)
                      (restrictedPermissions p) p)))"

text \<open>The entries of the table for which the loop emits an error.\<close>

definition restricted_hit :: "(string \<Rightarrow> string \<Rightarrow> int) \<Rightarrow> string list \<Rightarrow> string \<Rightarrow> string \<times> string \<Rightarrow> bool" where
  "restricted_hit mozCompare permissionsInManifest minVersionSetInManifest entry =
     (fst entry \<in> set permissionsInManifest
      \<and> (minVersionSetInManifest = [] \<or> mozCompare minVersionSetInManifest (snd entry) = - 1))"

text \<open>
  A model of \<open>mozCompare\<close> for the examples: the version comparison of Mozilla's toolkit.
  A version is a list of parts separated by dots; a part is a number, a string, a
  number and a string, each of which may be missing; a missing number is 0, a part
  \<open>*\<close> is larger than every number, a string \<open>+\<close> after the first number stands for
  the next number followed by \<open>pre\<close>, and a missing string is larger than every string.
  Parts are compared from the left, a missing part as the empty part.
\<close>

definition number_of :: "string \<Rightarrow> int" where
  "number_of ds = int (foldl (\<lambda>n ch. 10 * n + (of_char ch - 48)) 0 ds)"

text \<open>\<open>strtol\<close> in base 10: an optional sign and digits; without a digit, 0 and the whole text.\<close>

definition leading_int :: "string \<Rightarrow> int \<times> string" where
  "leading_int s =
     (let (sign_len, sign) =
            (case s of
               ch # cs \<Rightarrow> if ch = CHR ''-'' then (1, - 1) else if ch = CHR ''+'' then (1, 1) else (0, 1)
             | [] \<Rightarrow> (0::nat, 1::int));
          ds = takeWhile is_digit (drop sign_len s)
      in if ds = [] then (0, s) else (sign * number_of ds, drop (sign_len + length ds) s))"

record version_part =
  numA :: int
  strB :: "string option"
  numC :: int
  extraD :: "string option"

definition parse_part :: "string \<Rightarrow> version_part" where
  "parse_part part =
     (let (a, b) = (if part = ''*'' then (2147483647, []) else leading_int part)
      in if b = [] then \<lparr>numA = a, strB = None, numC = 0, extraD = None\<rparr>
         else if hd b = CHR ''+'' then \<lparr>numA = a + 1, strB = Some ''pre'', numC = 0, extraD = None\<rparr>
         else
           (let sb = takeWhile (\<lambda>ch. \<not> is_digit ch \<and> ch \<noteq> CHR ''+'' \<and> ch \<noteq> CHR ''-'') b;
                numstart = drop (length sb) b
            in if numstart = [] then \<lparr>numA = a, strB = Some sb, numC = 0, extraD = None\<rparr>
               else (let (c, d) = leading_int numstart
                     in \<lparr>numA = a, strB = Some sb, numC = c,
                         extraD = (if d = [] then None else Some d)\<rparr>)))"

definition cmp_int :: "int \<Rightarrow> int \<Rightarrow> int" where
  "cmp_int a b = (if a < b then - 1 else if a > b then 1 else 0)"

fun cmp_chars :: "string \<Rightarrow> string \<Rightarrow> int" where
  "cmp_chars [] [] = 0"
| "cmp_chars [] (b # bs) = - 1"
| "cmp_chars (a # as) [] = 1"
| "cmp_chars (a # as) (b # bs) =
     (if (of_char a :: nat) < of_char b then - 1
      else if (of_char a :: nat) > of_char b then 1 else cmp_chars as bs)"

fun cmp_string :: "string option \<Rightarrow> string option \<Rightarrow> int" where
  "cmp_string None None = 0"
| "cmp_string None (Some b) = 1"
| "cmp_string (Some a) None = - 1"
| "cmp_string (Some a) (Some b) = cmp_chars a b"

definition cmp_part :: "version_part \<Rightarrow> version_part \<Rightarrow> int" where
  "cmp_part v w =
     (if cmp_int (numA v) (numA w) \<noteq> 0 then cmp_int (numA v) (numA w)
      else if cmp_string (strB v) (strB w) \<noteq> 0 then cmp_string (strB v) (strB w)
      else if cmp_int (numC v) (numC w) \<noteq> 0 then cmp_int (numC v) (numC w)
      else cmp_string (extraD v) (extraD w))"

fun cmp_parts :: "string list \<Rightarrow> string list \<Rightarrow> int" where
  "cmp_parts [] [] = 0"
| "cmp_parts (a # as) [] =
     (if cmp_part (parse_part a) (parse_part []) \<noteq> 0 then cmp_part (parse_part a) (parse_part [])
      else cmp_parts as [])"
| "cmp_parts [] (b # bs) =
     (if cmp_part (parse_part []) (parse_part b) \<noteq> 0 then cmp_part (parse_part []) (parse_part b)
      else cmp_parts [] bs)"
| "cmp_parts (a # as) (b # bs) =
     (if cmp_part (parse_part a) (parse_part b) \<noteq> 0 then cmp_part (parse_part a) (parse_part b)
      else cmp_parts as bs)"

definition toolkit_compare :: "string \<Rightarrow> string \<Rightarrow> int" where
  "toolkit_compare a b =
     cmp_parts (split_where (\<lambda>ch. ch = CHR ''.'') a) (split_where (\<lambda>ch. ch = CHR ''.'') b)"

text \<open>Manifests that ask for a restricted permission, and the table of the spec's example.\<close>

definition permission_manifest :: "json \<Rightarrow> json" where
  "permission_manifest gecko =
     JObj [(''manifest_version'', JNum 2), (''name'', JStr ''x''), (''version'', JStr ''1.0''),
       (''permissions'', JArr [JStr ''tabs'', JStr ''Proxy'']),
       (''applications'', JObj [(''gecko'', gecko)])]"

definition permission_parser :: "json \<Rightarrow> parser" where
  "permission_parser gecko =
     (new_parser (permission_manifest gecko) empty_collector)\<lparr>restrictedPermissions := [(''proxy'', ''78.0'')]\<rparr>"

text \<open>The same manifests with a table whose key has a capital letter.\<close>

definition capital_key_parser :: "json \<Rightarrow> parser" where
  "capital_key_parser gecko = (permission_parser gecko)\<lparr>restrictedPermissions := [(''Proxy'', ''78.0'')]\<rparr>"

section \<open>Icons\<close>


































section \<open>The constructor\<close>

text \<open>
  The constructor of \<open>ManifestJSONParser\<close> (lines 87-144). The class \<open>JSONParser\<close> (of
  \<open>parsers/json\<close>) is not among the sources: \<open>parse\<close> is a parameter that gives, for
  the JSON string and the collector, the parsed document (\<open>JUndefined\<close> when there is
  none), \<open>isValid\<close> and the collector with the diagnostics of the parse. The third
  argument of the constructor is the record of its options, the defaults filled in.

  When the parse fails, none of the other fields is set; the record has them as they
  are when unset. Otherwise the constructor sets the fields, finds the addon's kind
  and calls \<open>_validate\<close> (lines 391-733), which runs the rules modelled above among
  others: the constructor is modelled for whatever \<open>_validate\<close> does, as a parameter.
\<close>

record options =
  option_selfHosted :: bool
  option_schemaValidatorOptions :: "validator_options option"
  option_io :: "io option"
  option_isAlreadySigned :: bool
  option_restrictedPermissions :: "(string \<times> string) list"

definition default_document :: json where
  "default_document =
     JObj [(''manifest_version'', JNull), (''name'', JNull), (''type'', JStr PACKAGE_EXTENSION),
           (''version'', JNull)]"

definition ManifestJSONParser ::
  "(string \<Rightarrow> collector \<Rightarrow> json \<times> bool \<times> collector) \<Rightarrow> (parser \<Rightarrow> exn + parser)
     \<Rightarrow> string \<Rightarrow> collector \<Rightarrow> options \<Rightarrow> exn + parser" where
  "ManifestJSONParser parse private_validate jsonString c opts =
     (case parse jsonString c of (parsed, valid, c1) \<Rightarrow>
        if parsed = JUndefined \<or> valid = False
        then Inr ((new_parser default_document c1)\<lparr>isValid := valid\<rparr>)
        else
          bindE (detect_kind ((new_parser parsed c1)
                   \<lparr>isValid := valid,
                    selfHosted := option_selfHosted opts,
                    schemaValidatorOptions := option_schemaValidatorOptions opts\<rparr>)) (\<lambda>p.
            private_validate (p\<lparr>io := option_io opts,
                  isAlreadySigned := option_isAlreadySigned opts,
                  isPrivilegedAddon :=
                    (case option_schemaValidatorOptions opts of
                       None \<Rightarrow> False
                     | Some o' \<Rightarrow> (case privileged o' of None \<Rightarrow> False | Some b \<Rightarrow> b)),
                  restrictedPermissions := option_restrictedPermissions opts\<rparr>)))"

text \<open>
  Stand-ins for the examples: a parse that fails on every string but \<open>{}\<close>, with the
  error \<open>JSON_INVALID\<close>, and a \<open>_validate\<close> that reports every manifest as one without
  a name.
\<close>

definition example_parse :: "string \<Rightarrow> collector \<Rightarrow> json \<times> bool \<times> collector" where
  "example_parse jsonString c =
     (if jsonString = ''{}'' then (JObj [], True, c) else (JUndefined, False, addError JSON_INVALID c))"

definition example_validate :: "parser \<Rightarrow> exn + parser" where
  "example_validate p = Inr (p\<lparr>collector := addError MANIFEST_FIELD_REQUIRED (collector p), isValid := False\<rparr>)"

definition example_options :: options where
  "example_options =
     \<lparr>option_selfHosted = False, option_schemaValidatorOptions = None, option_io = None,
      option_isAlreadySigned = False, option_restrictedPermissions = []\<rparr>"

text \<open>Example manifests: a language pack, a dictionary and an extension that declare
  \<open>applications.gecko.strict_max_version\<close>.\<close>

definition gecko_max_60 :: json where
  "gecko_max_60 = JObj [(''gecko'', JObj [(''id'', JStr ''a@b''), (''strict_max_version'', JStr ''60.0'')])]"

definition langpack_manifest :: json where
  "langpack_manifest = JObj [(''langpack_id'', JStr ''fr''), (''applications'', gecko_max_60)]"

definition dictionary_manifest :: json where
  "dictionary_manifest =
     JObj [(''dictionaries'', JObj [(''fr'', JStr ''fr.dic'')]), (''applications'', gecko_max_60)]"

definition extension_manifest :: json where
  "extension_manifest = JObj [(''name'', JStr ''x''), (''applications'', gecko_max_60)]"

section \<open>Properties of the content security policy check\<close>

text \<open>What the scan of one directive's tokens does to the three flags.\<close>

lemma scan_values_eval:
  "warnInsecureEval (scan_values P c vs f) = (warnInsecureEval f \<or> unsafe_eval \<in> set vs)"
  by (induction vs arbitrary: f) auto

lemma scan_values_csp:
  "warnInsecureCsp (scan_values P c vs f) = (warnInsecureCsp f \<or> list_ex (bad_token P) vs)"
  by (induction vs arbitrary: f) (auto simp: bad_token_def)

lemma scan_values_insecure:
  "insecureSrcDirective (scan_values P c vs f) =
     (insecureSrcDirective f \<or> (c = ''default-src'' \<and> list_ex (bad_token P) vs))"
  by (induction vs arbitrary: f) (auto simp: bad_token_def)

lemma csp_step_other:
  assumes "c \<noteq> ''script-src''"
  shows "warnInsecureCsp (csp_step P ds c f) = (warnInsecureCsp f \<or> has_bad P ds c)"
    and "insecureSrcDirective (csp_step P ds c f) =
           (insecureSrcDirective f \<or> (c = ''default-src'' \<and> has_bad P ds c))"
    and "warnInsecureEval (csp_step P ds c f) = (warnInsecureEval f \<or> has_eval ds c)"
  using assms
  by (simp_all add: csp_step_def has_bad_def has_eval_def scan_values_csp scan_values_insecure
      scan_values_eval split: option.splits)

lemma all_secure_not_bad: "all_secure P ds c \<Longrightarrow> \<not> has_bad P ds c"
  by (auto simp: all_secure_def has_bad_def list_all_iff list_ex_iff bad_token_def split: option.splits)

lemma all_secure_not_eval: "\<not> P unsafe_eval \<Longrightarrow> all_secure P ds c \<Longrightarrow> \<not> has_eval ds c"
  by (auto simp: all_secure_def has_eval_def list_all_iff split: option.splits)

lemma csp_step_script:
  shows "warnInsecureCsp (csp_step P ds ''script-src'' f) =
           (if insecureSrcDirective f \<and> all_secure P ds ''script-src'' then False
            else warnInsecureCsp f \<or> has_bad P ds ''script-src'')"
    and "warnInsecureEval (csp_step P ds ''script-src'' f) =
           (if insecureSrcDirective f \<and> all_secure P ds ''script-src'' then warnInsecureEval f
            else warnInsecureEval f \<or> has_eval ds ''script-src'')"
  by (simp_all add: csp_step_def has_bad_def has_eval_def all_secure_def scan_values_csp
      scan_values_eval split: option.splits)

lemma csp_scan_insecure:
  "warnInsecureCsp (csp_scan P ds) =
     (((map_of ds ''default-src'' = None \<or> has_bad P ds ''default-src'') \<and> \<not> all_secure P ds ''script-src'')
      \<or> has_bad P ds ''script-src'' \<or> has_bad P ds ''script-src-elem''
      \<or> has_bad P ds ''script-src-attr'' \<or> has_bad P ds ''worker-src'')"
proof -
  have "warnInsecureCsp (csp_scan P ds) =
     ((if (map_of ds ''default-src'' = None \<or> has_bad P ds ''default-src'') \<and> all_secure P ds ''script-src''
       then False
       else (map_of ds ''default-src'' = None \<or> has_bad P ds ''default-src'') \<or> has_bad P ds ''script-src'')
      \<or> has_bad P ds ''script-src-elem''
      \<or> has_bad P ds ''script-src-attr'' \<or> has_bad P ds ''worker-src'')"
    by (simp add: csp_scan_def candidates_def csp_initial_def csp_step_other csp_step_script)
  then show ?thesis
    using all_secure_not_bad [of P ds "''script-src''"] by auto
qed

lemma csp_scan_eval:
  assumes "\<not> P unsafe_eval"
  shows "warnInsecureEval (csp_scan P ds) =
     (has_eval ds ''default-src'' \<or> has_eval ds ''script-src'' \<or> has_eval ds ''script-src-elem''
      \<or> has_eval ds ''script-src-attr'' \<or> has_eval ds ''worker-src'')"
proof -
  have "warnInsecureEval (csp_scan P ds) =
     ((if (map_of ds ''default-src'' = None \<or> has_bad P ds ''default-src'') \<and> all_secure P ds ''script-src''
       then has_eval ds ''default-src''
       else has_eval ds ''default-src'' \<or> has_eval ds ''script-src'')
      \<or> has_eval ds ''script-src-elem''
      \<or> has_eval ds ''script-src-attr'' \<or> has_eval ds ''worker-src'')"
    by (simp add: csp_scan_def candidates_def csp_initial_def csp_step_other csp_step_script)
  then show ?thesis
    using assms all_secure_not_eval [of P ds "''script-src''"] by auto
qed


text \<open>
  C1 (amended). For a policy that \<open>parseCspPolicy\<close> parses to the directives \<open>ds\<close>, the
  call returns, adds no error and no notice, and adds the eval warning exactly when
  \<open>warnInsecureEval\<close> is set and then the insecure-CSP warning exactly when
  \<open>warnInsecureCsp\<close> is set at the end of the scan. Moreover:
  \<^item> with no \<open>default-src\<close> and a \<open>script-src\<close> of safe keywords only, the insecure-CSP
    warning is emitted exactly when \<open>script-src-elem\<close>, \<open>script-src-attr\<close> or
    \<open>worker-src\<close> has a token that is neither safe nor \<open>'unsafe-eval'\<close>;
  \<^item> a \<open>default-src\<close> with a token that is neither safe nor \<open>'unsafe-eval'\<close> yields the
    insecure-CSP warning unless a \<open>script-src\<close> of safe keywords only overrides it;
  \<^item> when \<open>'unsafe-eval'\<close> is not itself a safe keyword, the eval warning is emitted
    exactly when one of the five checked directives has the token \<open>'unsafe-eval'\<close>;
  \<^item> with a \<open>default-src\<close>, and every token of the checked directives safe or
    \<open>'unsafe-eval'\<close>, no insecure-CSP warning is emitted: \<open>'unsafe-eval'\<close> alone does
    not mark the policy insecure.
\<close>

theorem validateCspPolicyString_warnings:
  assumes "parseCspPolicy policy = Inr ds"
  shows "\<exists>c'. validateCspPolicyString parseCspPolicy P policy manifestPropName c = Inr c'
      \<and> errors c' = errors c \<and> notices c' = notices c
      \<and> warnings c' = warnings c
           @ (if warnInsecureEval (csp_scan P ds) then [manifestCspUnsafeEval manifestPropName] else [])
           @ (if warnInsecureCsp (csp_scan P ds) then [manifestCsp manifestPropName] else [])
      \<and> (map_of ds ''default-src'' = None \<and> all_secure P ds ''script-src'' \<longrightarrow>
           warnInsecureCsp (csp_scan P ds) =
             (has_bad P ds ''script-src-elem'' \<or> has_bad P ds ''script-src-attr''
              \<or> has_bad P ds ''worker-src''))
      \<and> (has_bad P ds ''default-src'' \<and> \<not> all_secure P ds ''script-src'' \<longrightarrow>
           warnInsecureCsp (csp_scan P ds))
      \<and> (\<not> P unsafe_eval \<longrightarrow>
           warnInsecureEval (csp_scan P ds) = (\<exists>d\<in>set candidates. has_eval ds d))
      \<and> (map_of ds ''default-src'' \<noteq> None \<and> (\<forall>d\<in>set candidates. \<not> has_bad P ds d) \<longrightarrow>
           \<not> warnInsecureCsp (csp_scan P ds))"
proof -
  have run: "validateCspPolicyString parseCspPolicy P policy manifestPropName c =
      Inr (c\<lparr>warnings := warnings c
           @ (if warnInsecureEval (csp_scan P ds) then [manifestCspUnsafeEval manifestPropName] else [])
           @ (if warnInsecureCsp (csp_scan P ds) then [manifestCsp manifestPropName] else [])\<rparr>)"
    using assms by (simp add: validateCspPolicyString_def bindE_def addWarning_def Let_def)
  have a: "map_of ds ''default-src'' = None \<and> all_secure P ds ''script-src'' \<longrightarrow>
           warnInsecureCsp (csp_scan P ds) =
             (has_bad P ds ''script-src-elem'' \<or> has_bad P ds ''script-src-attr''
              \<or> has_bad P ds ''worker-src'')"
    using all_secure_not_bad [of P ds "''script-src''"] by (auto simp: csp_scan_insecure)
  have b: "has_bad P ds ''default-src'' \<and> \<not> all_secure P ds ''script-src'' \<longrightarrow>
           warnInsecureCsp (csp_scan P ds)"
    by (simp add: csp_scan_insecure)
  have c: "\<not> P unsafe_eval \<longrightarrow>
           warnInsecureEval (csp_scan P ds) = (\<exists>d\<in>set candidates. has_eval ds d)"
    by (simp add: csp_scan_eval candidates_def)
  have d: "map_of ds ''default-src'' \<noteq> None \<and> (\<forall>d\<in>set candidates. \<not> has_bad P ds d) \<longrightarrow>
           \<not> warnInsecureCsp (csp_scan P ds)"
    by (simp add: csp_scan_insecure candidates_def)
  show ?thesis
    unfolding run using a b c d by simp
qed


theorem validateCspPolicyString_warnings_witness:
  "spec_parseCspPolicy (JStr ''script-src 'self'; worker-src 'unsafe-eval' 'none' '')
     = Inr [(''worker-src'', [unsafe_eval, quoted ''none'']), (''script-src'', [quoted ''self''])]
   \<and> map_of [(''worker-src'', [unsafe_eval, quoted ''none'']), (''script-src'', [quoted ''self''])]
        ''default-src'' = None
   \<and> all_secure spec_CSP_KEYWORD_RE
        [(''worker-src'', [unsafe_eval, quoted ''none'']), (''script-src'', [quoted ''self''])] ''script-src''
   \<and> \<not> spec_CSP_KEYWORD_RE unsafe_eval
   \<and> validateCspPolicyString spec_parseCspPolicy spec_CSP_KEYWORD_RE
        (JStr ''script-src 'self'; worker-src 'unsafe-eval' 'none' '') ''content_security_policy'' empty_collector
       = Inr (empty_collector\<lparr>warnings := [manifestCspUnsafeEval ''content_security_policy'']\<rparr>)
   \<and> spec_parseCspPolicy (JStr ''default-src https://example.com'')
     = Inr [(''default-src'', [''https://example.com''])]
   \<and> has_bad spec_CSP_KEYWORD_RE [(''default-src'', [''https://example.com''])] ''default-src''
   \<and> \<not> all_secure spec_CSP_KEYWORD_RE [(''default-src'', [''https://example.com''])] ''script-src''
   \<and> validateCspPolicyString spec_parseCspPolicy spec_CSP_KEYWORD_RE
        (JStr ''default-src https://example.com'') ''content_security_policy'' empty_collector
       = Inr (empty_collector\<lparr>warnings := [manifestCsp ''content_security_policy'']\<rparr>)
   \<and> spec_parseCspPolicy (JStr ''default-src 'self' 'unsafe-eval' '')
     = Inr [(''default-src'', [quoted ''self'', unsafe_eval])]
   \<and> map_of [(''default-src'', [quoted ''self'', unsafe_eval])] ''default-src'' \<noteq> None
   \<and> validateCspPolicyString spec_parseCspPolicy spec_CSP_KEYWORD_RE
        (JStr ''default-src 'self' 'unsafe-eval' '') ''content_security_policy'' empty_collector
       = Inr (empty_collector\<lparr>warnings := [manifestCspUnsafeEval ''content_security_policy'']\<rparr>)"
proof -
  let ?A = "[(''worker-src'', [unsafe_eval, quoted ''none'']), (''script-src'', [quoted ''self''])]"
  let ?B = "[(''default-src'', [''https://example.com''])]"
  let ?C = "[(''default-src'', [quoted ''self'', unsafe_eval])]"
  have h3: "\<not> spec_CSP_KEYWORD_RE unsafe_eval" by code_simp
  have pA: "spec_parseCspPolicy (JStr ''script-src 'self'; worker-src 'unsafe-eval' 'none' '') = Inr ?A"
    by code_simp
  have a1: "map_of ?A ''default-src'' = None" by simp
  have a2: "all_secure spec_CSP_KEYWORD_RE ?A ''script-src''" by code_simp
  have a4: "\<not> has_bad spec_CSP_KEYWORD_RE ?A ''script-src-elem''"
    "\<not> has_bad spec_CSP_KEYWORD_RE ?A ''script-src-attr''"
    "\<not> has_bad spec_CSP_KEYWORD_RE ?A ''worker-src''" by code_simp+
  have a5: "\<exists>d\<in>set candidates. has_eval ?A d" by code_simp
  from validateCspPolicyString_warnings [of spec_parseCspPolicy _ ?A spec_CSP_KEYWORD_RE
      "''content_security_policy''" empty_collector, OF pA]
  have rA: "validateCspPolicyString spec_parseCspPolicy spec_CSP_KEYWORD_RE
        (JStr ''script-src 'self'; worker-src 'unsafe-eval' 'none' '') ''content_security_policy'' empty_collector
       = Inr (empty_collector\<lparr>warnings := [manifestCspUnsafeEval ''content_security_policy'']\<rparr>)"
    using a1 a2 h3 a4 a5 by (auto simp: empty_collector_def)
  have pB: "spec_parseCspPolicy (JStr ''default-src https://example.com'') = Inr ?B"
    by code_simp
  have b1: "has_bad spec_CSP_KEYWORD_RE ?B ''default-src''" by code_simp
  have b2: "\<not> all_secure spec_CSP_KEYWORD_RE ?B ''script-src''" by code_simp
  have b3: "\<not> (\<exists>d\<in>set candidates. has_eval ?B d)" by code_simp
  from validateCspPolicyString_warnings [of spec_parseCspPolicy _ ?B spec_CSP_KEYWORD_RE
      "''content_security_policy''" empty_collector, OF pB]
  have rB: "validateCspPolicyString spec_parseCspPolicy spec_CSP_KEYWORD_RE
        (JStr ''default-src https://example.com'') ''content_security_policy'' empty_collector
       = Inr (empty_collector\<lparr>warnings := [manifestCsp ''content_security_policy'']\<rparr>)"
    using b1 b2 h3 b3 by (auto simp: empty_collector_def)
  have pC: "spec_parseCspPolicy (JStr ''default-src 'self' 'unsafe-eval' '') = Inr ?C"
    by code_simp
  have c1: "map_of ?C ''default-src'' \<noteq> None" by simp
  have c2: "\<forall>d\<in>set candidates. \<not> has_bad spec_CSP_KEYWORD_RE ?C d" by code_simp
  have c3: "\<exists>d\<in>set candidates. has_eval ?C d" by code_simp
  from validateCspPolicyString_warnings [of spec_parseCspPolicy _ ?C spec_CSP_KEYWORD_RE
      "''content_security_policy''" empty_collector, OF pC]
  have rC: "validateCspPolicyString spec_parseCspPolicy spec_CSP_KEYWORD_RE
        (JStr ''default-src 'self' 'unsafe-eval' '') ''content_security_policy'' empty_collector
       = Inr (empty_collector\<lparr>warnings := [manifestCspUnsafeEval ''content_security_policy'']\<rparr>)"
    using c1 c2 h3 c3 by (auto simp: empty_collector_def)
  from pA a1 a2 h3 rA pB b1 b2 rB pC c1 rC show ?thesis by blast
qed

text \<open>
  The claim as it was stated fails twice. A policy with no \<open>default-src\<close> and the
  \<open>script-src\<close> of safe keywords \<open>script-src 'self'\<close> still gets the insecure-CSP warning
  when \<open>worker-src\<close> is \<open>*\<close>; and the \<open>default-src *\<close> of a policy gets no insecure-CSP
  warning when the policy also has \<open>script-src 'self'\<close>, which overrides it.
\<close>

theorem validateCspPolicyString_claim_counterexample:
  "spec_parseCspPolicy (JStr ''script-src 'self'; worker-src *'')
     = Inr [(''worker-src'', [''*'']), (''script-src'', [quoted ''self''])]
   \<and> map_of [(''worker-src'', [''*'']), (''script-src'', [quoted ''self''])] ''default-src'' = None
   \<and> all_secure spec_CSP_KEYWORD_RE
        [(''worker-src'', [''*'']), (''script-src'', [quoted ''self''])] ''script-src''
   \<and> validateCspPolicyString spec_parseCspPolicy spec_CSP_KEYWORD_RE
        (JStr ''script-src 'self'; worker-src *'') ''content_security_policy'' empty_collector
       = Inr (empty_collector\<lparr>warnings := [manifestCsp ''content_security_policy'']\<rparr>)
   \<and> spec_parseCspPolicy (JStr ''script-src 'self'; default-src *'')
     = Inr [(''default-src'', [''*'']), (''script-src'', [quoted ''self''])]
   \<and> \<not> spec_CSP_KEYWORD_RE ''*''
   \<and> validateCspPolicyString spec_parseCspPolicy spec_CSP_KEYWORD_RE
        (JStr ''script-src 'self'; default-src *'') ''content_security_policy'' empty_collector
       = Inr empty_collector"
  by code_simp

section \<open>Properties of the rule for \<open>strict_max_version\<close>\<close>

text \<open>
  C7 (amended). Whenever the manifest declares a truthy
  \<open>applications.gecko.strict_max_version\<close>: for a language pack nothing is emitted and
  nothing changes; otherwise, if the addon is a dictionary, one error
  \<open>STRICT_MAX_VERSION\<close> is emitted and validity becomes false; for every other kind one
  notice \<open>STRICT_MAX_VERSION\<close> is emitted and nothing else changes.
\<close>

theorem validate_strict_max_version_kinds:
  assumes "gecko_property (parsedJSON p) ''strict_max_version'' = Inr v" and "truthy v"
  shows "validate_strict_max_version p =
      Inr (if isLanguagePack p then p
           else if isDictionary p
             then p\<lparr>isValid := False,
                    collector := (collector p)\<lparr>errors := errors (collector p) @ [STRICT_MAX_VERSION]\<rparr>\<rparr>
             else p\<lparr>collector := (collector p)\<lparr>notices := notices (collector p) @ [STRICT_MAX_VERSION]\<rparr>\<rparr>)"
  using assms by (simp add: validate_strict_max_version_def bindE_def addError_def addNotice_def)

theorem validate_strict_max_version_kinds_witness:
  "gecko_property dictionary_manifest ''strict_max_version'' = Inr (JStr ''60.0'')
   \<and> truthy (JStr ''60.0'')
   \<and> detect_kind (new_parser dictionary_manifest empty_collector)
       = Inr ((new_parser dictionary_manifest empty_collector)\<lparr>isDictionary := True\<rparr>)
   \<and> validate_strict_max_version ((new_parser dictionary_manifest empty_collector)\<lparr>isDictionary := True\<rparr>)
       = Inr ((new_parser dictionary_manifest empty_collector)
               \<lparr>isValid := False, collector := empty_collector\<lparr>errors := [STRICT_MAX_VERSION]\<rparr>,
                isDictionary := True\<rparr>)
   \<and> gecko_property extension_manifest ''strict_max_version'' = Inr (JStr ''60.0'')
   \<and> detect_kind (new_parser extension_manifest empty_collector)
       = Inr (new_parser extension_manifest empty_collector)
   \<and> validate_strict_max_version (new_parser extension_manifest empty_collector)
       = Inr ((new_parser extension_manifest empty_collector)
               \<lparr>collector := empty_collector\<lparr>notices := [STRICT_MAX_VERSION]\<rparr>\<rparr>)"
proof -
  have g1: "gecko_property dictionary_manifest ''strict_max_version'' = Inr (JStr ''60.0'')"
    by code_simp
  have g2: "gecko_property extension_manifest ''strict_max_version'' = Inr (JStr ''60.0'')"
    by code_simp
  have t: "truthy (JStr ''60.0'')" by simp
  have k1: "detect_kind (new_parser dictionary_manifest empty_collector)
       = Inr ((new_parser dictionary_manifest empty_collector)\<lparr>isDictionary := True\<rparr>)"
    by (simp add: detect_kind_def new_parser_def dictionary_manifest_def bindE_def)
  have k2: "detect_kind (new_parser extension_manifest empty_collector)
       = Inr (new_parser extension_manifest empty_collector)"
    by (simp add: detect_kind_def new_parser_def extension_manifest_def bindE_def)
  have r1: "validate_strict_max_version ((new_parser dictionary_manifest empty_collector)\<lparr>isDictionary := True\<rparr>)
       = Inr ((new_parser dictionary_manifest empty_collector)
               \<lparr>isValid := False, collector := empty_collector\<lparr>errors := [STRICT_MAX_VERSION]\<rparr>,
                isDictionary := True\<rparr>)"
    using validate_strict_max_version_kinds
      [of "(new_parser dictionary_manifest empty_collector)\<lparr>isDictionary := True\<rparr>" "JStr ''60.0''"] g1 t
    by (simp add: new_parser_def empty_collector_def)
  have r2: "validate_strict_max_version (new_parser extension_manifest empty_collector)
       = Inr ((new_parser extension_manifest empty_collector)
               \<lparr>collector := empty_collector\<lparr>notices := [STRICT_MAX_VERSION]\<rparr>\<rparr>)"
    using validate_strict_max_version_kinds
      [of "new_parser extension_manifest empty_collector" "JStr ''60.0''"] g2 t
    by (simp add: new_parser_def empty_collector_def)
  from g1 t k1 r1 g2 k2 r2 show ?thesis by blast
qed

text \<open>
  The claim as it was stated fails for a language pack: it is a kind other than
  Dictionary, it declares \<open>strict_max_version\<close>, and no notice is emitted.
\<close>

theorem validate_strict_max_version_claim_counterexample:
  "gecko_property langpack_manifest ''strict_max_version'' = Inr (JStr ''60.0'')
   \<and> detect_kind (new_parser langpack_manifest empty_collector)
       = Inr ((new_parser langpack_manifest empty_collector)\<lparr>isLanguagePack := True\<rparr>)
   \<and> validate_strict_max_version ((new_parser langpack_manifest empty_collector)\<lparr>isLanguagePack := True\<rparr>)
       = Inr ((new_parser langpack_manifest empty_collector)\<lparr>isLanguagePack := True\<rparr>)
   \<and> notices (collector ((new_parser langpack_manifest empty_collector)\<lparr>isLanguagePack := True\<rparr>)) = []"
  by (simp add: validate_strict_max_version_def detect_kind_def new_parser_def langpack_manifest_def
      gecko_max_60_def gecko_property_def bindE_def own_def empty_collector_def)

section \<open>Properties of the metadata\<close>

lemma set_fold_set_add: "set (fold set_add ps acc) = set acc \<union> set ps"
  by (induction ps arbitrary: acc) (auto simp: set_add_def)

lemma distinct_fold_set_add: "distinct acc \<Longrightarrow> distinct (fold set_add ps acc)"
  by (induction ps arbitrary: acc) (auto simp: set_add_def)

lemma set_joined_paths: "set (joined_paths ps) = {js_join ''.'' xs | xs. JArr xs \<in> set ps \<and> xs \<noteq> []}"
  by (induction ps rule: joined_paths.induct) auto

lemma spread_optional_paths:
  assumes "spread (optional_paths v) = Inr ps"
  shows "JArr xs \<in> set ps \<longleftrightarrow> (\<exists>qs. path_value v [''paths''] = JArr qs \<and> JArr xs \<in> set qs)"
proof (cases v)
  case (JObj kvs)
  show ?thesis
  proof (cases "own kvs ''paths''")
    case (JArr qs)
    with JObj assms show ?thesis by (auto simp: optional_paths_def nullish_def)
  next
    case (JStr s)
    with JObj assms show ?thesis by (auto simp: optional_paths_def nullish_def)
  qed (use JObj assms in \<open>auto simp: optional_paths_def nullish_def\<close>)
qed (use assms in \<open>auto simp: optional_paths_def\<close>)


lemma bindE_eq_Inr: "bindE m f = Inr r \<longleftrightarrow> (\<exists>x. m = Inr x \<and> f x = Inr r)"
  by (cases m) (simp_all add: bindE_def)

lemma api_paths_set:
  assumes "api_paths api = Inr ps"
  shows "set ps = {js_join ''.'' xs | xs. declared_path api xs}"
proof -
  from assms obtain child parent pp cp where
    c: "get api ''child'' = Inr child" and p: "get api ''parent'' = Inr parent"
    and sp: "spread (optional_paths parent) = Inr pp" and sc: "spread (optional_paths child) = Inr cp"
    and ps: "ps = joined_paths (pp @ cp)"
    unfolding api_paths_def bindE_eq_Inr by blast
  have pvp: "path_value api [''parent'', ''paths''] = path_value parent [''paths'']"
    using p by (cases api) auto
  have pvc: "path_value api [''child'', ''paths''] = path_value child [''paths'']"
    using c by (cases api) auto
  have key: "(JArr xs \<in> set pp \<or> JArr xs \<in> set cp) \<and> xs \<noteq> [] \<longleftrightarrow> declared_path api xs" for xs
    unfolding declared_path_def pvp pvc spread_optional_paths [OF sp] spread_optional_paths [OF sc]
    by blast
  have "set ps = {js_join ''.'' xs | xs. (JArr xs \<in> set pp \<or> JArr xs \<in> set cp) \<and> xs \<noteq> []}"
    unfolding ps set_joined_paths by simp
  then show ?thesis unfolding key .
qed

lemma experiment_loop_set:
  assumes "experiment_loop apis acc = Inr r"
  shows "set r = set acc \<union> {js_join ''.'' xs | xs api. api \<in> snd ` set apis \<and> declared_path api xs}"
  using assms
proof (induction apis arbitrary: acc)
  case Nil
  then show ?case by simp
next
  case (Cons a apis)
  obtain key api where a: "a = (key, api)" by (cases a)
  from Cons.prems a obtain ps where ps: "api_paths api = Inr ps"
    and rest: "experiment_loop apis (fold set_add ps acc) = Inr r"
    by (auto simp: bindE_eq_Inr)
  have "set r = set acc \<union> set ps \<union> {js_join ''.'' xs | xs api. api \<in> snd ` set apis \<and> declared_path api xs}"
    using Cons.IH [OF rest] by (simp add: set_fold_set_add)
  also have "set ps = {js_join ''.'' xs | xs. declared_path api xs}"
    by (rule api_paths_set [OF ps])
  finally show ?case unfolding a by auto
qed

lemma experiment_loop_distinct:
  "experiment_loop apis acc = Inr r \<Longrightarrow> distinct acc \<Longrightarrow> distinct r"
proof (induction apis arbitrary: acc)
  case Nil
  then show ?case by simp
next
  case (Cons a apis)
  obtain key api where a: "a = (key, api)" by (cases a)
  from Cons.prems a obtain ps where
    rest: "experiment_loop apis (fold set_add ps acc) = Inr r"
    by (auto simp: bindE_eq_Inr)
  from Cons.IH [OF rest] Cons.prems(2) show ?case by (simp add: distinct_fold_set_add)
qed

lemma get_path_value: "get doc k = Inr v \<Longrightarrow> path_value doc [k] = v"
  by (cases doc) auto

lemma getExperimentApiPaths_spec:
  assumes "getExperimentApiPaths doc = Inr r"
  shows "set r = spec_experimentApiPaths doc \<and> distinct r"
proof -
  from assms obtain e where e: "get doc ''experiment_apis'' = Inr e"
    and r: "(if truthy e then bindE (entries e) (\<lambda>apis. experiment_loop apis []) else Inr []) = Inr r"
    unfolding getExperimentApiPaths_def bindE_eq_Inr by blast
  from e have pv: "path_value doc [''experiment_apis''] = e" by (rule get_path_value)
  show ?thesis
  proof (cases "truthy e")
    case False
    with r pv show ?thesis
      by (simp add: spec_experimentApiPaths_def declared_apis_def)
  next
    case True
    with r obtain apis where en: "entries e = Inr apis" and l: "experiment_loop apis [] = Inr r"
      by (auto simp: bindE_eq_Inr)
    have "declared_apis doc = snd ` set apis"
      using True pv en by (force simp: declared_apis_def)
    with experiment_loop_set [OF l] experiment_loop_distinct [OF l] show ?thesis
      by (simp add: spec_experimentApiPaths_def)
  qed
qed

lemma getAddonId_path_value:
  "getAddonId doc = (if path_value doc [''applications'', ''gecko'', ''id''] = JUndefined then JNull
                     else path_value doc [''applications'', ''gecko'', ''id''])"
proof (cases doc)
  case d: (JObj kvs)
  show ?thesis
  proof (cases "own kvs ''applications''")
    case a: (JObj avs)
    show ?thesis
    proof (cases "own avs ''gecko''")
      case g: (JObj gvs)
      show ?thesis
        by (cases "own gvs ''id''") (simp_all add: d a g getAddonId_def bindE_def)
    qed (simp_all add: d a getAddonId_def bindE_def)
  qed (simp_all add: d getAddonId_def bindE_def)
qed (simp_all add: getAddonId_def bindE_def)

lemma gecko_property_cases:
  assumes "gecko_property doc k = Inr v"
  shows "(path_value doc [''applications''] = JUndefined \<longrightarrow> v = JUndefined)
       \<and> (truthy (path_value doc [''applications'', ''gecko'']) \<longrightarrow> v = path_value doc [''applications'', ''gecko'', k])"
proof (cases doc)
  case d: (JObj kvs)
  show ?thesis
  proof (cases "own kvs ''applications''")
    case a: (JObj avs)
    show ?thesis
      using assms by (cases "own avs ''gecko''") (auto simp: d a gecko_property_def bindE_def split: if_splits)
  qed (use assms in \<open>auto simp: d gecko_property_def bindE_def split: if_splits\<close>)
qed (use assms in \<open>auto simp: gecko_property_def bindE_def split: if_splits\<close>)


text \<open>
  C8 (amended). When \<open>getMetadata\<close> returns for a parsed manifest: \<open>id\<close> is \<open>null\<close> when
  the manifest declares no \<open>applications.gecko.id\<close>, and otherwise the declared value as
  it is (a string when a string is declared); \<open>manifestVersion\<close> is the declared
  \<open>manifest_version\<close>; \<open>firefoxMinVersion\<close> is the value of the chain
  \<open>applications && applications.gecko && applications.gecko.strict_min_version\<close>:
  \<open>undefined\<close> (not \<open>null\<close>) when the manifest has no \<open>applications\<close>, and the declared
  \<open>strict_min_version\<close> when \<open>applications.gecko\<close> is truthy; and \<open>experimentApiPaths\<close>
  holds, each once, exactly the dot-joined strings of the non-empty arrays in the
  \<open>parent\<close> and \<open>child\<close> \<open>paths\<close> arrays of the declared experiment APIs.
\<close>

theorem getMetadata_fields:
  assumes "getMetadata doc = Inr m"
  shows "addon_id m = (if path_value doc [''applications'', ''gecko'', ''id''] = JUndefined then JNull
                       else path_value doc [''applications'', ''gecko'', ''id''])
       \<and> manifestVersion m = path_value doc [''manifest_version'']
       \<and> gecko_property doc ''strict_min_version'' = Inr (firefoxMinVersion m)
       \<and> (path_value doc [''applications''] = JUndefined \<longrightarrow> firefoxMinVersion m = JUndefined)
       \<and> (truthy (path_value doc [''applications'', ''gecko'']) \<longrightarrow>
            firefoxMinVersion m = path_value doc [''applications'', ''gecko'', ''strict_min_version''])
       \<and> set (experimentApiPaths m) = spec_experimentApiPaths doc
       \<and> distinct (experimentApiPaths m)"
proof -
  from assms obtain mv n ver fmv paths where
    mv: "get doc ''manifest_version'' = Inr mv"
    and fmv: "gecko_property doc ''strict_min_version'' = Inr fmv"
    and paths: "getExperimentApiPaths doc = Inr paths"
    and m: "m = \<lparr>addon_id = getAddonId doc, manifestVersion = mv, name = n,
            addon_type = PACKAGE_EXTENSION, version = ver, firefoxMinVersion = fmv,
            experimentApiPaths = paths\<rparr>"
    unfolding getMetadata_def bindE_eq_Inr by blast
  show ?thesis
    using gecko_property_cases [OF fmv] getExperimentApiPaths_spec [OF paths] get_path_value [OF mv] fmv
    by (simp add: m getAddonId_path_value)
qed


theorem getMetadata_fields_witness:
  "getMetadata experiment_manifest =
     Inr \<lparr>addon_id = JStr ''a@b'', manifestVersion = JNum 2, name = JStr ''x'',
          addon_type = PACKAGE_EXTENSION, version = JStr ''1.0'', firefoxMinVersion = JStr ''78.0'',
          experimentApiPaths = [''some.name'', ''other'']\<rparr>
   \<and> spec_experimentApiPaths experiment_manifest = {''some.name'', ''other''}
   \<and> path_value experiment_manifest [''applications'', ''gecko'', ''strict_min_version''] = JStr ''78.0''"
proof -
  have g: "getMetadata experiment_manifest =
     Inr \<lparr>addon_id = JStr ''a@b'', manifestVersion = JNum 2, name = JStr ''x'',
          addon_type = PACKAGE_EXTENSION, version = JStr ''1.0'', firefoxMinVersion = JStr ''78.0'',
          experimentApiPaths = [''some.name'', ''other'']\<rparr>"
    by code_simp
  have t: "truthy (path_value experiment_manifest [''applications'', ''gecko''])"
    by (simp add: experiment_manifest_def own_def)
  from getMetadata_fields [OF g] t g show ?thesis by auto
qed

text \<open>
  The claim as it was stated fails: a manifest without \<open>applications\<close> has the
  \<open>firefoxMinVersion\<close> \<open>undefined\<close>, which is neither a string nor \<open>null\<close>; and a manifest
  that declares a number as its id or its minimum version has that number in the
  metadata.
\<close>

theorem getMetadata_claim_counterexample:
  "getMetadata plain_manifest =
     Inr \<lparr>addon_id = JNull, manifestVersion = JNum 2, name = JStr ''x'',
          addon_type = PACKAGE_EXTENSION, version = JStr ''1.0'', firefoxMinVersion = JUndefined,
          experimentApiPaths = []\<rparr>
   \<and> getMetadata numeric_id_manifest =
     Inr \<lparr>addon_id = JNum 42, manifestVersion = JNum 2, name = JStr ''x'',
          addon_type = PACKAGE_EXTENSION, version = JStr ''1.0'', firefoxMinVersion = JNum 60,
          experimentApiPaths = []\<rparr>"
  by code_simp

section \<open>Properties of the rule for dictionaries\<close>

text \<open>One call of validateFileExistsInPackage.\<close>

lemma validateFileExistsInPackage_result:
  assumes "validateFileExistsInPackage np v kind f p = Inr (b, p')" and "io p = Some i"
  shows "np v = Inr (normalized np v)
       \<and> b = (normalized np v \<in> set (files i))
       \<and> p' = (if normalized np v \<in> set (files i) then p
               else p\<lparr>collector := (collector p)\<lparr>errors := errors (collector p) @ [f (normalized np v) kind]\<rparr>,
                      isValid := False\<rparr>)"
  using assms
  by (auto simp: validateFileExistsInPackage_def bindE_eq_Inr normalized_def addError_def split: if_splits)

lemma dictionaries_loop_result:
  assumes "dictionaries_loop np es p = Inr p'" and "io p = Some i"
  shows "p' = p\<lparr>collector := (collector p)\<lparr>errors := errors (collector p) @ concat (map (dictionary_errors np (files i)) es)\<rparr>,
                isValid := isValid p \<and> concat (map (dictionary_errors np (files i)) es) = []\<rparr>"
  using assms
proof (induction es arbitrary: p)
  case Nil
  then show ?case by simp
next
  case (Cons e es)
  obtain loc filepath where e: "e = (loc, filepath)" by (cases e)
  from Cons.prems(1) e obtain b1 p1 aff b2 p2 where
    v1: "validateFileExistsInPackage np filepath ''binary'' manifestDictionaryFileMissing p = Inr (b1, p1)"
    and r: "replace_dic filepath = Inr aff"
    and v2: "validateFileExistsInPackage np aff ''binary'' manifestDictionaryFileMissing p1 = Inr (b2, p2)"
    and l: "dictionaries_loop np es p2 = Inr p'"
    by (auto simp: bindE_eq_Inr)
  from r obtain s where s: "filepath = JStr s" "aff = JStr (dic_to_aff s)"
    by (cases filepath) auto
  note f1 = validateFileExistsInPackage_result [OF v1 Cons.prems(2)]
  from f1 Cons.prems(2) have io1: "io p1 = Some i" by (auto split: if_splits)
  note f2 = validateFileExistsInPackage_result [OF v2 io1]
  from f2 io1 have io2: "io p2 = Some i" by (auto split: if_splits)
  have p1: "p1 = p\<lparr>collector := (collector p)\<lparr>errors := errors (collector p) @ missing_file np (files i) filepath\<rparr>,
                 isValid := isValid p \<and> missing_file np (files i) filepath = []\<rparr>"
    using f1 by (simp add: missing_file_def)
  have p2: "p2 = p1\<lparr>collector := (collector p1)\<lparr>errors := errors (collector p1) @ missing_file np (files i) aff\<rparr>,
                 isValid := isValid p1 \<and> missing_file np (files i) aff = []\<rparr>"
    using f2 by (simp add: missing_file_def)
  show ?case
    unfolding Cons.IH [OF l io2] p2 p1 e s by auto
qed

lemma validateFileExistsInPackage_io:
  "validateFileExistsInPackage np v kind f p = Inr (b, p') \<Longrightarrow> io p' = io p"
  by (auto simp: validateFileExistsInPackage_def bindE_eq_Inr split: option.splits if_splits)

lemma validateFileExistsInPackage_returns:
  assumes "np v = Inr q" and "io p = Some i"
  shows "\<exists>b p'. validateFileExistsInPackage np v kind f p = Inr (b, p')"
  using assms by (auto simp: validateFileExistsInPackage_def bindE_def)

lemma dictionaries_loop_returns:
  assumes "string_paths np es" and "io p = Some i"
  shows "\<exists>p'. dictionaries_loop np es p = Inr p'"
  using assms
proof (induction es arbitrary: p)
  case Nil
  then show ?case by simp
next
  case (Cons e es)
  obtain loc filepath where e: "e = (loc, filepath)" by (cases e)
  from Cons.prems(1) e obtain s q q' where s: "filepath = JStr s"
    and q: "np (JStr s) = Inr q" and q': "np (JStr (dic_to_aff s)) = Inr q'"
    and rest: "string_paths np es"
    by (auto simp: string_paths_def split: json.splits sum.splits)
  from validateFileExistsInPackage_returns [of np "JStr s" q p i, OF q Cons.prems(2)] obtain b1 p1 where
    v1: "validateFileExistsInPackage np (JStr s) ''binary'' manifestDictionaryFileMissing p = Inr (b1, p1)"
    by blast
  from validateFileExistsInPackage_io [OF v1] Cons.prems(2) have io1: "io p1 = Some i" by simp
  from validateFileExistsInPackage_returns [of np "JStr (dic_to_aff s)" q' p1 i, OF q' io1] obtain b2 p2 where
    v2: "validateFileExistsInPackage np (JStr (dic_to_aff s)) ''binary'' manifestDictionaryFileMissing p1 = Inr (b2, p2)"
    by blast
  from validateFileExistsInPackage_io [OF v2] io1 have io2: "io p2 = Some i" by simp
  from Cons.IH [OF rest io2] obtain p' where "dictionaries_loop np es p2 = Inr p'" by blast
  with v1 v2 show ?case by (simp add: e s bindE_def)
qed

lemma entries_JObj: "entries (JObj kvs) = Inr (map (\<lambda>k. (k, own kvs k)) (own_keys kvs))"
proof -
  have "map (\<lambda>(i, k). (k, own kvs k)) (enumerate n ks) = map (\<lambda>k. (k, own kvs k)) ks" for n ks
    by (induction ks arbitrary: n) auto
  then show ?thesis by (simp add: entries_def bindE_def)
qed

lemma count_dictionary_errors:
  "code m \<noteq> ''MANIFEST_DICTIONARY_FILE_MISSING'' \<Longrightarrow> count_list (concat (map (dictionary_errors np fs) es)) m = 0"
proof (induction es)
  case Nil
  then show ?case by simp
next
  case (Cons e es)
  obtain loc v where e: "e = (loc, v)" by (cases e)
  have "m \<notin> set (dictionary_errors np fs (loc, v))"
    using Cons.prems by (cases v) (auto simp: missing_file_def manifestDictionaryFileMissing_def)
  with Cons show ?case by (simp add: e)
qed


text \<open>
  C3. Whenever the manifest declares a \<open>dictionaries\<close> map, in a package \<open>io\<close>, with
  declared paths that are strings \<open>normalizePath\<close> accepts, the rule returns and appends
  the errors \<open>E\<close> to the collector, in this order: \<open>MANIFEST_DICT_MISSING_ID\<close> when no
  (truthy) id is derivable from \<open>applications.gecko.id\<close>; \<open>MANIFEST_EMPTY_DICTS\<close> for a
  map of no entry, \<open>MANIFEST_MULTIPLE_DICTS\<close>, exactly once, for a map of more than one
  entry; and for every declared path an error \<open>manifestDictionaryFileMissing\<close> when the
  normalized path is not in the package and another when the normalized path of its
  \<open>.aff\<close> sibling is not. Validity becomes false as soon as \<open>E\<close> is not empty, and
  nothing else changes.
\<close>

theorem validate_dictionaries_errors:
  assumes "get (parsedJSON p) ''dictionaries'' = Inr (JObj kvs)"
    and "io p = Some i"
    and "string_paths np (map (\<lambda>k. (k, own kvs k)) (own_keys kvs))"
  shows "\<exists>p' E. validate_dictionaries np p = Inr p'
    \<and> E = (if truthy (getAddonId (parsedJSON p)) then [] else [MANIFEST_DICT_MISSING_ID])
          @ (if own_keys kvs = [] then [MANIFEST_EMPTY_DICTS]
             else if 1 < length (own_keys kvs) then [MANIFEST_MULTIPLE_DICTS] else [])
          @ concat (map (dictionary_errors np (files i)) (map (\<lambda>k. (k, own kvs k)) (own_keys kvs)))
    \<and> p' = p\<lparr>collector := (collector p)\<lparr>errors := errors (collector p) @ E\<rparr>,
              isValid := isValid p \<and> E = []\<rparr>
    \<and> (\<not> truthy (getAddonId (parsedJSON p)) \<longrightarrow> MANIFEST_DICT_MISSING_ID \<in> set E)
    \<and> (own_keys kvs = [] \<longrightarrow> MANIFEST_EMPTY_DICTS \<in> set E)
    \<and> (1 < length (own_keys kvs) \<longrightarrow> count_list E MANIFEST_MULTIPLE_DICTS = 1)
    \<and> (\<forall>k\<in>set (own_keys kvs). \<forall>s. own kvs k = JStr s \<longrightarrow>
          (normalized np (JStr s) \<notin> set (files i) \<longrightarrow>
             manifestDictionaryFileMissing (normalized np (JStr s)) ''binary'' \<in> set E)
        \<and> (normalized np (JStr (dic_to_aff s)) \<notin> set (files i) \<longrightarrow>
             manifestDictionaryFileMissing (normalized np (JStr (dic_to_aff s))) ''binary'' \<in> set E))"
proof -
  let ?es = "map (\<lambda>k. (k, own kvs k)) (own_keys kvs)"
  let ?A = "if truthy (getAddonId (parsedJSON p)) then [] else [MANIFEST_DICT_MISSING_ID]"
  let ?B = "if own_keys kvs = [] then [MANIFEST_EMPTY_DICTS]
             else if 1 < length (own_keys kvs) then [MANIFEST_MULTIPLE_DICTS] else []"
  let ?F = "concat (map (dictionary_errors np (files i)) ?es)"
  let ?E = "?A @ ?B @ ?F"
  define p2 where "p2 = p\<lparr>collector := (collector p)\<lparr>errors := errors (collector p) @ ?A @ ?B\<rparr>,
                          isValid := isValid p \<and> ?A @ ?B = []\<rparr>"
  have io2: "io p2 = Some i" using assms(2) by (simp add: p2_def)
  from dictionaries_loop_returns [OF assms(3) io2] obtain p' where
    l: "dictionaries_loop np ?es p2 = Inr p'" by blast
  have run: "validate_dictionaries np p = dictionaries_loop np ?es p2"
    using assms(1)
    by (simp add: validate_dictionaries_def bindE_def entries_JObj Let_def p2_def addError_def)
  have p': "p' = p\<lparr>collector := (collector p)\<lparr>errors := errors (collector p) @ ?E\<rparr>,
              isValid := isValid p \<and> ?E = []\<rparr>"
    unfolding dictionaries_loop_result [OF l io2] by (auto simp: p2_def)
  have c: "count_list ?F MANIFEST_MULTIPLE_DICTS = 0"
    by (rule count_dictionary_errors) (simp add: MANIFEST_MULTIPLE_DICTS_def)
  have m: "1 < length (own_keys kvs) \<longrightarrow> count_list ?E MANIFEST_MULTIPLE_DICTS = 1"
    using c by (simp add: MANIFEST_MULTIPLE_DICTS_def MANIFEST_DICT_MISSING_ID_def)
  have f: "\<forall>k\<in>set (own_keys kvs). \<forall>s. own kvs k = JStr s \<longrightarrow>
          (normalized np (JStr s) \<notin> set (files i) \<longrightarrow>
             manifestDictionaryFileMissing (normalized np (JStr s)) ''binary'' \<in> set ?E)
        \<and> (normalized np (JStr (dic_to_aff s)) \<notin> set (files i) \<longrightarrow>
             manifestDictionaryFileMissing (normalized np (JStr (dic_to_aff s))) ''binary'' \<in> set ?E)"
  proof (intro ballI allI impI)
    fix k s assume k: "k \<in> set (own_keys kvs)" and s: "own kvs k = JStr s"
    have "set (dictionary_errors np (files i) (k, JStr s)) \<subseteq> set ?F"
      using k s by force
    then show "(normalized np (JStr s) \<notin> set (files i) \<longrightarrow>
             manifestDictionaryFileMissing (normalized np (JStr s)) ''binary'' \<in> set ?E)
        \<and> (normalized np (JStr (dic_to_aff s)) \<notin> set (files i) \<longrightarrow>
             manifestDictionaryFileMissing (normalized np (JStr (dic_to_aff s))) ''binary'' \<in> set ?E)"
      by (auto simp: missing_file_def)
  qed
  show ?thesis
    using run l p' m f by (intro exI [of _ p'] exI [of _ ?E]) simp
qed


theorem validate_dictionaries_errors_witness:
  "get (parsedJSON two_dictionaries_parser) ''dictionaries''
     = Inr (JObj [(''fr'', JStr ''fr.dic''), (''de'', JStr ''dict/de.dic'')])
   \<and> io two_dictionaries_parser = Some dictionary_package
   \<and> string_paths plain_normalizePath [(''fr'', JStr ''fr.dic''), (''de'', JStr ''dict/de.dic'')]
   \<and> validate_dictionaries plain_normalizePath two_dictionaries_parser
       = Inr (two_dictionaries_parser
               \<lparr>collector := empty_collector\<lparr>errors :=
                  [MANIFEST_DICT_MISSING_ID, MANIFEST_MULTIPLE_DICTS,
                   manifestDictionaryFileMissing ''dict/de.aff'' ''binary'']\<rparr>,
                isValid := False\<rparr>)
   \<and> validate_dictionaries plain_normalizePath no_dictionaries_parser
       = Inr (no_dictionaries_parser
               \<lparr>collector := empty_collector\<lparr>errors := [MANIFEST_EMPTY_DICTS]\<rparr>, isValid := False\<rparr>)"
proof -
  let ?kvs = "[(''fr'', JStr ''fr.dic''), (''de'', JStr ''dict/de.dic'')]"
  have h1: "get (parsedJSON two_dictionaries_parser) ''dictionaries'' = Inr (JObj ?kvs)"
    by (simp add: two_dictionaries_parser_def new_parser_def two_dictionaries_manifest_def own_def)
  have h2: "io two_dictionaries_parser = Some dictionary_package"
    by (simp add: two_dictionaries_parser_def)
  have k: "map (\<lambda>k. (k, own ?kvs k)) (own_keys ?kvs) = ?kvs" by (simp add: own_def)
  have h3: "string_paths plain_normalizePath ?kvs"
    by (simp add: string_paths_def)
  have c: "collector two_dictionaries_parser = empty_collector" "isValid two_dictionaries_parser"
    by (simp_all add: two_dictionaries_parser_def new_parser_def)
  have e: "(if truthy (getAddonId (parsedJSON two_dictionaries_parser)) then [] else [MANIFEST_DICT_MISSING_ID])
          @ (if own_keys ?kvs = [] then [MANIFEST_EMPTY_DICTS]
             else if 1 < length (own_keys ?kvs) then [MANIFEST_MULTIPLE_DICTS] else [])
          @ concat (map (dictionary_errors plain_normalizePath (files dictionary_package)) ?kvs)
        = [MANIFEST_DICT_MISSING_ID, MANIFEST_MULTIPLE_DICTS,
           manifestDictionaryFileMissing ''dict/de.aff'' ''binary'']"
    by code_simp
  have r1: "validate_dictionaries plain_normalizePath two_dictionaries_parser
       = Inr (two_dictionaries_parser
               \<lparr>collector := empty_collector\<lparr>errors :=
                  [MANIFEST_DICT_MISSING_ID, MANIFEST_MULTIPLE_DICTS,
                   manifestDictionaryFileMissing ''dict/de.aff'' ''binary'']\<rparr>,
                isValid := False\<rparr>)"
    using validate_dictionaries_errors [of two_dictionaries_parser ?kvs dictionary_package plain_normalizePath,
        OF h1 h2] h3 e
    unfolding k by (auto simp: c empty_collector_def)
  let ?p = no_dictionaries_parser
  have g1: "get (parsedJSON ?p) ''dictionaries'' = Inr (JObj [])"
    by (simp add: no_dictionaries_parser_def new_parser_def no_dictionaries_manifest_def own_def)
  have g2: "io ?p = Some dictionary_package" by (simp add: no_dictionaries_parser_def)
  have g3: "string_paths plain_normalizePath (map (\<lambda>k. (k, own [] k)) (own_keys []))"
    by (simp add: string_paths_def)
  have d: "collector ?p = empty_collector" "isValid ?p"
    by (simp_all add: no_dictionaries_parser_def new_parser_def)
  have t: "truthy (getAddonId (parsedJSON no_dictionaries_parser))" by code_simp
  have r2: "validate_dictionaries plain_normalizePath ?p
       = Inr (?p\<lparr>collector := empty_collector\<lparr>errors := [MANIFEST_EMPTY_DICTS]\<rparr>, isValid := False\<rparr>)"
    using validate_dictionaries_errors [of ?p "[]" dictionary_package plain_normalizePath, OF g1 g2 g3] t
    by (auto simp: d empty_collector_def)
  from h1 h2 h3 r1 r2 show ?thesis by blast
qed


section \<open>Properties of the rule for locales\<close>

text \<open>
  The two patterns on an ordinary messages file: for a locale \<open>l\<close> without a slash and
  a line terminator, the path \<open>_locales/l/messages.json\<close> gives the locale \<open>l\<close> and counts
  as its messages file.
\<close>

lemma pattern_match_self: "\<not> list_ex line_terminator s \<Longrightarrow> pattern_match s s"
  by (induction s) auto

lemma plain_messages_file:
  assumes "CHR ''/'' \<notin> set l" and "\<not> list_ex line_terminator l"
  shows "localeDirRe (LOCALES_DIRECTORY @ ''/'' @ l @ ''/'' @ MESSAGES_JSON) = Some l
       \<and> localeFileRe (LOCALES_DIRECTORY @ ''/'' @ l @ ''/'' @ MESSAGES_JSON)"
proof -
  have "takeWhile (\<lambda>ch. ch \<noteq> CHR ''/'') (l @ CHR ''/'' # r) = l" for r
    using assms(1) by (induction l) auto
  then have tw: "takeWhile (\<lambda>ch. ch \<noteq> CHR ''/'') (l @ ''/'' @ MESSAGES_JSON) = l"
    by simp
  have pm: "pattern_match (''/'' @ MESSAGES_JSON) (''/'' @ MESSAGES_JSON)"
    by (rule pattern_match_self) (simp add: MESSAGES_JSON_def line_terminator_def)
  have d: "localeDirRe (LOCALES_DIRECTORY @ ''/'' @ l @ ''/'' @ MESSAGES_JSON) = Some l"
    using assms(2) tw
    by (simp add: localeDirRe_def startsWith_def Let_def)
  have f: "localeFileRe (LOCALES_DIRECTORY @ ''/'' @ l @ ''/'' @ MESSAGES_JSON)"
    using assms(2) pm
    by (simp add: localeFileRe_def startsWith_def Let_def)
  from d f show ?thesis ..
qed








section \<open>Properties of the restricted permissions\<close>

lemma fold_restricted_step:
  "fold (restricted_step cmp perms minV) rs p =
     p\<lparr>collector := (collector p)\<lparr>errors := errors (collector p)
           @ map (\<lambda>(k, V). makeRestrictedPermission k V) (filter (restricted_hit cmp perms minV) rs)\<rparr>,
       isValid := isValid p \<and> filter (restricted_hit cmp perms minV) rs = []\<rparr>"
proof (induction rs arbitrary: p)
  case Nil
  then show ?case by simp
next
  case (Cons r rs)
  obtain k V where r: "r = (k, V)" by (cases r)
  have step: "restricted_step cmp perms minV (k, V) q =
      (if restricted_hit cmp perms minV (k, V)
       then q\<lparr>collector := (collector q)\<lparr>errors := errors (collector q) @ [makeRestrictedPermission k V]\<rparr>,
              isValid := False\<rparr>
       else q)" for q
    by (auto simp: restricted_step_def restricted_hit_def addError_def)
  show ?case
    by (cases "restricted_hit cmp perms minV r") (simp_all add: Cons.IH step r)
qed


lemma lower_char_idem: "lower_char (lower_char c) = lower_char c"
  by (auto simp: lower_char_def Let_def)

lemma toLowerCase_idem: "toLowerCase (toLowerCase s) = toLowerCase s"
  by (simp add: toLowerCase_def lower_char_idem)


text \<open>
  C6 (amended). For a manifest with a non-empty \<open>permissions\<close> array, \<open>minV\<close> is the
  string of the metadata's \<open>firefoxMinVersion\<close>: the declared \<open>strict_min_version\<close>, and
  \<open>undefined\<close> when none is declared. The function appends one error
  \<open>makeRestrictedPermission\<close> for each entry \<open>(k, V)\<close> of the table whose key is the
  lower-case string of a permission of the manifest and for which \<open>minV\<close> is empty or
  \<open>mozCompare minV V = -1\<close>; validity becomes false when there is such an entry, and
  nothing else changes. Only the manifest's side is put in lower case: for a key \<open>k\<close>
  of the table that is in lower case and appears in the manifest, compared without
  case, the error is emitted if and only if \<open>minV\<close> is empty or lower than \<open>V\<close> under
  \<open>mozCompare\<close>; for a key that has a capital letter no error is ever emitted. An
  absent minimum version is not empty: it is compared as the string \<open>undefined\<close>.
\<close>

theorem validateRestrictedPermissions_errors:
  assumes "get (parsedJSON p) ''permissions'' = Inr (JArr xs)" and "xs \<noteq> []"
    and "getMetadata (parsedJSON p) = Inr m"
  shows "\<exists>E minV. minV = js_String (firefoxMinVersion m)
    \<and> E = map (\<lambda>(k, V). makeRestrictedPermission k V)
            (filter (\<lambda>(k, V). k \<in> set (map (\<lambda>x. toLowerCase (js_String x)) xs)
                              \<and> (minV = [] \<or> mozCompare minV V = - 1))
               (restrictedPermissions p))
    \<and> validateRestrictedPermissions mozCompare p =
        Inr (p\<lparr>collector := (collector p)\<lparr>errors := errors (collector p) @ E\<rparr>,
               isValid := isValid p \<and> E = []\<rparr>)
    \<and> (\<forall>(k, V)\<in>set (restrictedPermissions p).
          toLowerCase k = k \<and> (\<exists>x\<in>set xs. toLowerCase (js_String x) = toLowerCase k) \<longrightarrow>
            (makeRestrictedPermission k V \<in> set E) = (minV = [] \<or> mozCompare minV V = - 1))
    \<and> (\<forall>k V. toLowerCase k \<noteq> k \<longrightarrow> makeRestrictedPermission k V \<notin> set E)
    \<and> (firefoxMinVersion m = JUndefined \<longrightarrow> minV = ''undefined'')
    \<and> (\<forall>s. firefoxMinVersion m = JStr s \<longrightarrow> minV = s)"
proof -
  let ?minV = "js_String (firefoxMinVersion m)"
  let ?perms = "map (\<lambda>x. toLowerCase (js_String x)) xs"
  let ?hit = "\<lambda>(k, V). k \<in> set ?perms \<and> (?minV = [] \<or> mozCompare ?minV V = - 1)"
  let ?E = "map (\<lambda>(k, V). makeRestrictedPermission k V) (filter ?hit (restrictedPermissions p))"
  have h: "restricted_hit mozCompare ?perms ?minV = ?hit"
    by (auto simp: restricted_hit_def fun_eq_iff)
  have run: "validateRestrictedPermissions mozCompare p =
        Inr (p\<lparr>collector := (collector p)\<lparr>errors := errors (collector p) @ ?E\<rparr>,
               isValid := isValid p \<and> ?E = []\<rparr>)"
    using assms
    by (simp add: validateRestrictedPermissions_def bindE_def Let_def fold_restricted_step h)
  have mem: "\<forall>(k, V)\<in>set (restrictedPermissions p).
          toLowerCase k = k \<and> (\<exists>x\<in>set xs. toLowerCase (js_String x) = toLowerCase k) \<longrightarrow>
            (makeRestrictedPermission k V \<in> set ?E) = (?minV = [] \<or> mozCompare ?minV V = - 1)"
    by (force simp: makeRestrictedPermission_def)
  have cap: "\<forall>k V. toLowerCase k \<noteq> k \<longrightarrow> makeRestrictedPermission k V \<notin> set ?E"
  proof (intro allI impI notI)
    fix k V
    assume k: "toLowerCase k \<noteq> k" and "makeRestrictedPermission k V \<in> set ?E"
    then have "k \<in> set ?perms" by (auto simp: makeRestrictedPermission_def)
    then obtain x where "k = toLowerCase (js_String x)" by auto
    then have "toLowerCase k = k" by (simp add: toLowerCase_idem)
    with k show False by simp
  qed
  show ?thesis
    using run mem cap by (intro exI [of _ ?E] exI [of _ ?minV]) simp
qed


text \<open>
  The spec's example under the toolkit's comparison: a restricted permission that
  requires 78.0 yields the error when the manifest declares 60.0 and when it declares
  no minimum version, and no diagnostic when it declares 80.0 or 100.0 (which is lower
  than 78.0 only as a string).
\<close>

theorem validateRestrictedPermissions_errors_witness:
  "get (parsedJSON (permission_parser (JObj [(''strict_min_version'', JStr ''60.0'')]))) ''permissions''
     = Inr (JArr [JStr ''tabs'', JStr ''Proxy''])
   \<and> toolkit_compare ''60.0'' ''78.0'' = - 1
   \<and> toolkit_compare ''80.0'' ''78.0'' = 1
   \<and> toolkit_compare ''100.0'' ''78.0'' = 1
   \<and> toolkit_compare ''undefined'' ''78.0'' = - 1
   \<and> validateRestrictedPermissions toolkit_compare
        (permission_parser (JObj [(''strict_min_version'', JStr ''60.0'')]))
       = Inr ((permission_parser (JObj [(''strict_min_version'', JStr ''60.0'')]))
               \<lparr>collector := empty_collector\<lparr>errors := [makeRestrictedPermission ''proxy'' ''78.0'']\<rparr>,
                isValid := False\<rparr>)
   \<and> validateRestrictedPermissions toolkit_compare
        (permission_parser (JObj [(''strict_min_version'', JStr ''80.0'')]))
       = Inr (permission_parser (JObj [(''strict_min_version'', JStr ''80.0'')]))
   \<and> validateRestrictedPermissions toolkit_compare
        (permission_parser (JObj [(''strict_min_version'', JStr ''100.0'')]))
       = Inr (permission_parser (JObj [(''strict_min_version'', JStr ''100.0'')]))
   \<and> validateRestrictedPermissions toolkit_compare (permission_parser (JObj []))
       = Inr ((permission_parser (JObj []))
               \<lparr>collector := empty_collector\<lparr>errors := [makeRestrictedPermission ''proxy'' ''78.0'']\<rparr>,
                isValid := False\<rparr>)"
proof -
  let ?xs = "[JStr ''tabs'', JStr ''Proxy'']"
  have perms: "get (parsedJSON (permission_parser g)) ''permissions'' = Inr (JArr ?xs)" for g
    by (simp add: permission_parser_def new_parser_def permission_manifest_def own_def)
  have ne: "?xs \<noteq> []" by simp
  have low: "toLowerCase ''tabs'' = ''tabs''" "toLowerCase ''Proxy'' = ''proxy''"
    "toLowerCase ''proxy'' = ''proxy''" by code_simp+
  have st: "collector (permission_parser g) = empty_collector" "isValid (permission_parser g)"
    "restrictedPermissions (permission_parser g) = [(''proxy'', ''78.0'')]" for g
    by (simp_all add: permission_parser_def new_parser_def)
  have c60: "toolkit_compare ''60.0'' ''78.0'' = - 1" by code_simp
  have c80: "toolkit_compare ''80.0'' ''78.0'' = 1" by code_simp
  have c100: "toolkit_compare ''100.0'' ''78.0'' = 1" by code_simp
  have cu: "toolkit_compare ''undefined'' ''78.0'' = - 1" by code_simp
  have m60: "getMetadata (parsedJSON (permission_parser (JObj [(''strict_min_version'', JStr ''60.0'')])))
      = Inr \<lparr>addon_id = JNull, manifestVersion = JNum 2, name = JStr ''x'',
          addon_type = PACKAGE_EXTENSION, version = JStr ''1.0'', firefoxMinVersion = JStr ''60.0'',
          experimentApiPaths = []\<rparr>"
    by code_simp
  have m80: "getMetadata (parsedJSON (permission_parser (JObj [(''strict_min_version'', JStr ''80.0'')])))
      = Inr \<lparr>addon_id = JNull, manifestVersion = JNum 2, name = JStr ''x'',
          addon_type = PACKAGE_EXTENSION, version = JStr ''1.0'', firefoxMinVersion = JStr ''80.0'',
          experimentApiPaths = []\<rparr>"
    by code_simp
  have m100: "getMetadata (parsedJSON (permission_parser (JObj [(''strict_min_version'', JStr ''100.0'')])))
      = Inr \<lparr>addon_id = JNull, manifestVersion = JNum 2, name = JStr ''x'',
          addon_type = PACKAGE_EXTENSION, version = JStr ''1.0'', firefoxMinVersion = JStr ''100.0'',
          experimentApiPaths = []\<rparr>"
    by code_simp
  have mu: "getMetadata (parsedJSON (permission_parser (JObj [])))
      = Inr \<lparr>addon_id = JNull, manifestVersion = JNum 2, name = JStr ''x'',
          addon_type = PACKAGE_EXTENSION, version = JStr ''1.0'', firefoxMinVersion = JUndefined,
          experimentApiPaths = []\<rparr>"
    by code_simp
  have r60: "validateRestrictedPermissions toolkit_compare
        (permission_parser (JObj [(''strict_min_version'', JStr ''60.0'')]))
       = Inr ((permission_parser (JObj [(''strict_min_version'', JStr ''60.0'')]))
               \<lparr>collector := empty_collector\<lparr>errors := [makeRestrictedPermission ''proxy'' ''78.0'']\<rparr>,
                isValid := False\<rparr>)"
    using validateRestrictedPermissions_errors [OF perms ne m60, of toolkit_compare] c60
    by (simp add: low st empty_collector_def)
  have r80: "validateRestrictedPermissions toolkit_compare
        (permission_parser (JObj [(''strict_min_version'', JStr ''80.0'')]))
       = Inr (permission_parser (JObj [(''strict_min_version'', JStr ''80.0'')]))"
    using validateRestrictedPermissions_errors [OF perms ne m80, of toolkit_compare] c80
    by (simp add: low st empty_collector_def)
  have r100: "validateRestrictedPermissions toolkit_compare
        (permission_parser (JObj [(''strict_min_version'', JStr ''100.0'')]))
       = Inr (permission_parser (JObj [(''strict_min_version'', JStr ''100.0'')]))"
    using validateRestrictedPermissions_errors [OF perms ne m100, of toolkit_compare] c100
    by (simp add: low st empty_collector_def)
  have ru: "validateRestrictedPermissions toolkit_compare (permission_parser (JObj []))
       = Inr ((permission_parser (JObj []))
               \<lparr>collector := empty_collector\<lparr>errors := [makeRestrictedPermission ''proxy'' ''78.0'']\<rparr>,
                isValid := False\<rparr>)"
    using validateRestrictedPermissions_errors [OF perms ne mu, of toolkit_compare] cu
    by (simp add: low st empty_collector_def)
  from perms c60 c80 c100 cu r60 r80 r100 ru show ?thesis by blast
qed


text \<open>
  The claim as it was stated fails for a table whose key has a capital letter: the
  manifest asks for \<open>Proxy\<close>, the table restricts \<open>Proxy\<close> to 78.0, the manifest declares
  60.0, which is lower, and no error is emitted.
\<close>

theorem validateRestrictedPermissions_claim_counterexample:
  "get (parsedJSON (capital_key_parser (JObj [(''strict_min_version'', JStr ''60.0'')]))) ''permissions''
     = Inr (JArr [JStr ''tabs'', JStr ''Proxy''])
   \<and> restrictedPermissions (capital_key_parser (JObj [(''strict_min_version'', JStr ''60.0'')]))
     = [(''Proxy'', ''78.0'')]
   \<and> toolkit_compare ''60.0'' ''78.0'' = - 1
   \<and> validateRestrictedPermissions toolkit_compare
        (capital_key_parser (JObj [(''strict_min_version'', JStr ''60.0'')]))
       = Inr (capital_key_parser (JObj [(''strict_min_version'', JStr ''60.0'')]))"
proof -
  let ?p = "capital_key_parser (JObj [(''strict_min_version'', JStr ''60.0'')])"
  have perms: "get (parsedJSON ?p) ''permissions'' = Inr (JArr [JStr ''tabs'', JStr ''Proxy''])"
    by (simp add: capital_key_parser_def permission_parser_def new_parser_def permission_manifest_def own_def)
  have t: "restrictedPermissions ?p = [(''Proxy'', ''78.0'')]"
    by (simp add: capital_key_parser_def)
  have c60: "toolkit_compare ''60.0'' ''78.0'' = - 1" by code_simp
  have m60: "getMetadata (parsedJSON ?p)
      = Inr \<lparr>addon_id = JNull, manifestVersion = JNum 2, name = JStr ''x'',
          addon_type = PACKAGE_EXTENSION, version = JStr ''1.0'', firefoxMinVersion = JStr ''60.0'',
          experimentApiPaths = []\<rparr>"
    by code_simp
  have low: "toLowerCase ''tabs'' = ''tabs''" "toLowerCase ''Proxy'' = ''proxy''" by code_simp+
  have r: "validateRestrictedPermissions toolkit_compare ?p = Inr ?p"
    by (simp add: validateRestrictedPermissions_def bindE_def perms m60 Let_def low t restricted_step_def)
  from perms t c60 r show ?thesis by simp
qed

section \<open>Properties of the icons\<close>







section \<open>Properties of the pass over the icons\<close>





















section \<open>Properties of the classification of schema issues\<close>

lemma code_with_overrides: "code (with_overrides b ov) = code b"
  by (cases ov) (simp add: with_overrides_def)


lemma errorLookup_base_cong:
  "isPrivilegedAddon p' = isPrivilegedAddon p \<Longrightarrow> errorLookup_base K p' e = errorLookup_base K p e"
  unfolding errorLookup_base_def by (erule ssubst) (rule refl)

lemma errorLookup_cong:
  "parsedJSON p' = parsedJSON p \<Longrightarrow> isPrivilegedAddon p' = isPrivilegedAddon p \<Longrightarrow>
     errorLookup K p' e = errorLookup K p e"
  by (simp add: errorLookup_def errorLookup_base_cong [of p' p])

lemma issue_step_exact:
  assumes "errorLookup K p e = Inr r" and "parsedJSON q = parsedJSON p"
    and "isPrivilegedAddon q = isPrivilegedAddon p" and "isAlreadySigned q = isAlreadySigned p"
    and "\<not> isValid q"
  shows "issue_step K e q =
     Inr (q\<lparr>collector := (collector q)\<lparr>errors := errors (collector q) @ issue_errors K p e,
                                        warnings := warnings (collector q) @ issue_warnings K p e\<rparr>\<rparr>)"
proof -
  have l: "errorLookup K q e = Inr r" using assms by (simp add: errorLookup_cong [of q p])
  have w: "warning_codes q = warning_codes p" using assms by (simp add: warning_codes_def)
  show ?thesis
    using assms(1,5)
    by (cases r)
       (auto simp: issue_step_def l w bindE_def issue_errors_def issue_warnings_def addError_def
          addWarning_def Let_def)
qed

lemma issues_loop_exact:
  assumes "\<forall>e\<in>set issues. \<exists>r. errorLookup K p e = Inr r" and "parsedJSON q = parsedJSON p"
    and "isPrivilegedAddon q = isPrivilegedAddon p" and "isAlreadySigned q = isAlreadySigned p"
    and "\<not> isValid q"
  shows "issues_loop K issues q =
     Inr (q\<lparr>collector := (collector q)\<lparr>errors := errors (collector q) @ concat (map (issue_errors K p) issues),
                                        warnings := warnings (collector q) @ concat (map (issue_warnings K p) issues)\<rparr>\<rparr>)"
  using assms
proof (induction issues arbitrary: q)
  case Nil
  then show ?case by simp
next
  case (Cons e issues)
  from Cons.prems(1) obtain r where r: "errorLookup K p e = Inr r" by auto
  let ?q1 = "q\<lparr>collector := (collector q)\<lparr>errors := errors (collector q) @ issue_errors K p e,
                                        warnings := warnings (collector q) @ issue_warnings K p e\<rparr>\<rparr>"
  have s: "issue_step K e q = Inr ?q1"
    by (rule issue_step_exact [OF r Cons.prems(2-5)])
  have ih: "issues_loop K issues ?q1 =
     Inr (?q1\<lparr>collector := (collector ?q1)\<lparr>errors := errors (collector ?q1) @ concat (map (issue_errors K p) issues),
                                        warnings := warnings (collector ?q1) @ concat (map (issue_warnings K p) issues)\<rparr>\<rparr>)"
    using Cons.prems by (intro Cons.IH) simp_all
  show ?case by (simp add: s bindE_def ih)
qed


text \<open>
  C2 (amended). The schema pass of \<open>_validate\<close> sets \<open>isValid\<close> to the validator's
  verdict and, when the verdict is false, adds for each issue what \<open>errorLookup\<close> and
  the list of warning codes give for it. For every raw schema issue that lines 238-372
  of \<open>errorLookup\<close> classify with the base message \<open>b\<close>: if the manifest's
  \<open>manifest_version\<close> is 2 and the code of \<open>b\<close> is one of the two host-permission codes
  (\<open>MANIFEST_HOST_PERMISSIONS\<close>, \<open>MANIFEST_BAD_HOST_PERMISSION\<close>), \<open>errorLookup\<close> returns
  \<open>null\<close> and the issue adds no diagnostic; if \<open>manifest_version\<close> is not 2 (3, say) and
  the code is \<open>MANIFEST_HOST_PERMISSIONS\<close>, the issue adds exactly one warning, the base
  message with its overrides, and no error. Validity is not decided issue by issue:
  after the pass \<open>isValid\<close> is the verdict, false whenever the validator reports an
  issue, also when the only issue is this warning or a suppressed one.
\<close>

theorem validate_schema_host_permission_codes:
  assumes "validate (chosen_validator p) (parsedJSON p) (schemaValidatorOptions p) = (valid, issues)"
    and "get (parsedJSON p) ''manifest_version'' = Inr manifest_version"
    and "\<forall>e\<in>set issues. \<exists>b ov. errorLookup_base K p e = Inr (b, ov)"
  shows "validate_schema K validate p =
           Inr (if valid then p\<lparr>isValid := True\<rparr>
                else p\<lparr>isValid := False,
                       collector := (collector p)
                         \<lparr>errors := errors (collector p) @ concat (map (issue_errors K p) issues),
                          warnings := warnings (collector p) @ concat (map (issue_warnings K p) issues)\<rparr>\<rparr>)
       \<and> (\<forall>e b ov. errorLookup_base K p e = Inr (b, ov) \<longrightarrow>
            (manifest_version = JNum 2
               \<and> (code b = code MANIFEST_HOST_PERMISSIONS \<or> code b = code MANIFEST_BAD_HOST_PERMISSION) \<longrightarrow>
                 errorLookup K p e = Inr None \<and> issue_warnings K p e = [] \<and> issue_errors K p e = [])
          \<and> (manifest_version \<noteq> JNum 2 \<and> code b = code MANIFEST_HOST_PERMISSIONS \<longrightarrow>
                 errorLookup K p e = Inr (Some (with_overrides b ov))
                 \<and> issue_warnings K p e = [with_overrides b ov] \<and> issue_errors K p e = []))"
proof -
  have l: "errorLookup K p e =
      (if manifest_version = JNum 2 \<and> code b \<in> set ignoredOnMV2 then Inr None
       else Inr (Some (with_overrides b ov)))" if "errorLookup_base K p e = Inr (b, ov)" for e b ov
    using that assms(2) by (simp add: errorLookup_def bindE_def)
  have w: "code MANIFEST_HOST_PERMISSIONS \<in> set (warning_codes p)"
    by (simp add: warning_codes_def)
  have each: "\<forall>e b ov. errorLookup_base K p e = Inr (b, ov) \<longrightarrow>
            (manifest_version = JNum 2
               \<and> (code b = code MANIFEST_HOST_PERMISSIONS \<or> code b = code MANIFEST_BAD_HOST_PERMISSION) \<longrightarrow>
                 errorLookup K p e = Inr None \<and> issue_warnings K p e = [] \<and> issue_errors K p e = [])
          \<and> (manifest_version \<noteq> JNum 2 \<and> code b = code MANIFEST_HOST_PERMISSIONS \<longrightarrow>
                 errorLookup K p e = Inr (Some (with_overrides b ov))
                 \<and> issue_warnings K p e = [with_overrides b ov] \<and> issue_errors K p e = [])"
    using w by (auto simp: l issue_warnings_def issue_errors_def ignoredOnMV2_def code_with_overrides)
  have all: "\<forall>e\<in>set issues. \<exists>r. errorLookup K p e = Inr r"
    using assms(3) l by fastforce
  have run: "validate_schema K validate p =
           Inr (if valid then p\<lparr>isValid := True\<rparr>
                else p\<lparr>isValid := False,
                       collector := (collector p)
                         \<lparr>errors := errors (collector p) @ concat (map (issue_errors K p) issues),
                          warnings := warnings (collector p) @ concat (map (issue_warnings K p) issues)\<rparr>\<rparr>)"
  proof (cases valid)
    case True
    then show ?thesis using assms(1) by (simp add: validate_schema_def)
  next
    case False
    have "issues_loop K issues (p\<lparr>isValid := False\<rparr>) =
      Inr ((p\<lparr>isValid := False\<rparr>)\<lparr>collector := (collector (p\<lparr>isValid := False\<rparr>))
          \<lparr>errors := errors (collector (p\<lparr>isValid := False\<rparr>)) @ concat (map (issue_errors K p) issues),
           warnings := warnings (collector (p\<lparr>isValid := False\<rparr>)) @ concat (map (issue_warnings K p) issues)\<rparr>\<rparr>)"
      by (rule issues_loop_exact [OF all]) simp_all
    with False show ?thesis using assms(1) by (simp add: validate_schema_def)
  qed
  from run each show ?thesis ..
qed


theorem validate_schema_host_permission_codes_witness:
  "example_verdict (chosen_validator (versioned_parser 2)) (parsedJSON (versioned_parser 2))
       (schemaValidatorOptions (versioned_parser 2)) = (False, [host_permission_issue])
   \<and> errorLookup_base example_consts (versioned_parser 2) host_permission_issue
     = Inr (MANIFEST_HOST_PERMISSIONS,
            (Some host_permission_text, None, ''/host_permissions/0''))
   \<and> get (parsedJSON (versioned_parser 2)) ''manifest_version'' = Inr (JNum 2)
   \<and> errorLookup example_consts (versioned_parser 2) host_permission_issue = Inr None
   \<and> validate_schema example_consts example_verdict (versioned_parser 2)
     = Inr ((versioned_parser 2)\<lparr>isValid := False\<rparr>)
   \<and> errorLookup_base example_consts (versioned_parser 3) host_permission_issue
     = Inr (MANIFEST_HOST_PERMISSIONS,
            (Some host_permission_text, None, ''/host_permissions/0''))
   \<and> get (parsedJSON (versioned_parser 3)) ''manifest_version'' = Inr (JNum 3)
   \<and> validate_schema example_consts example_verdict (versioned_parser 3)
     = Inr ((versioned_parser 3)\<lparr>isValid := False, collector := empty_collector\<lparr>warnings :=
              [Msg ''MANIFEST_HOST_PERMISSIONS''
                 [OverrideMessage host_permission_text,
                  OverrideInstancePath ''/host_permissions/0''] False]\<rparr>\<rparr>)"
proof -
  let ?ov = "(Some host_permission_text, None, ''/host_permissions/0'')"
  have v: "example_verdict (chosen_validator (versioned_parser n)) (parsedJSON (versioned_parser n))
       (schemaValidatorOptions (versioned_parser n)) = (False, [host_permission_issue])" for n
    by (simp add: example_verdict_def)
  have b: "errorLookup_base example_consts (versioned_parser n) host_permission_issue
     = Inr (MANIFEST_HOST_PERMISSIONS, ?ov)" if "n = 2 \<or> n = 3" for n
    using that by (elim disjE; hypsubst) code_simp+
  have g: "get (parsedJSON (versioned_parser n)) ''manifest_version'' = Inr (JNum n)" for n
    by (simp add: versioned_parser_def new_parser_def own_def)
  have c: "collector (versioned_parser n) = empty_collector" for n
    by (simp add: versioned_parser_def new_parser_def)
  have wo: "with_overrides MANIFEST_HOST_PERMISSIONS ?ov =
      Msg ''MANIFEST_HOST_PERMISSIONS''
                 [OverrideMessage host_permission_text,
                  OverrideInstancePath ''/host_permissions/0''] False"
    by code_simp
  have a: "\<forall>e\<in>set [host_permission_issue]. \<exists>b ov. errorLookup_base example_consts (versioned_parser n) e = Inr (b, ov)"
    if "n = 2 \<or> n = 3" for n
    using b [OF that] by simp
  have t2: "validate_schema example_consts example_verdict (versioned_parser 2) =
           Inr ((versioned_parser 2)\<lparr>isValid := False,
                  collector := (collector (versioned_parser 2))
                    \<lparr>errors := errors (collector (versioned_parser 2))
                        @ concat (map (issue_errors example_consts (versioned_parser 2)) [host_permission_issue]),
                     warnings := warnings (collector (versioned_parser 2))
                        @ concat (map (issue_warnings example_consts (versioned_parser 2)) [host_permission_issue])\<rparr>\<rparr>)
       \<and> errorLookup example_consts (versioned_parser 2) host_permission_issue = Inr None
       \<and> issue_warnings example_consts (versioned_parser 2) host_permission_issue = []
       \<and> issue_errors example_consts (versioned_parser 2) host_permission_issue = []"
    using validate_schema_host_permission_codes
      [where validate = example_verdict and p = "versioned_parser 2" and K = example_consts
         and valid = False and issues = "[host_permission_issue]" and manifest_version = "JNum 2"]
      v [of 2] g [of 2] a [of 2] b [of 2]
    by (simp add: MANIFEST_HOST_PERMISSIONS_def)
  have t3: "validate_schema example_consts example_verdict (versioned_parser 3) =
           Inr ((versioned_parser 3)\<lparr>isValid := False,
                  collector := (collector (versioned_parser 3))
                    \<lparr>errors := errors (collector (versioned_parser 3))
                        @ concat (map (issue_errors example_consts (versioned_parser 3)) [host_permission_issue]),
                     warnings := warnings (collector (versioned_parser 3))
                        @ concat (map (issue_warnings example_consts (versioned_parser 3)) [host_permission_issue])\<rparr>\<rparr>)
       \<and> issue_warnings example_consts (versioned_parser 3) host_permission_issue
           = [with_overrides MANIFEST_HOST_PERMISSIONS ?ov]
       \<and> issue_errors example_consts (versioned_parser 3) host_permission_issue = []"
    using validate_schema_host_permission_codes
      [where validate = example_verdict and p = "versioned_parser 3" and K = example_consts
         and valid = False and issues = "[host_permission_issue]" and manifest_version = "JNum 3"]
      v [of 3] g [of 3] a [of 3] b [of 3]
    by (simp add: MANIFEST_HOST_PERMISSIONS_def)
  note r2 = t2 [THEN conjunct2, THEN conjunct1] t2 [THEN conjunct2, THEN conjunct2, THEN conjunct1]
    t2 [THEN conjunct2, THEN conjunct2, THEN conjunct2]
  note r3 = t3 [THEN conjunct2, THEN conjunct1] t3 [THEN conjunct2, THEN conjunct2]
  from t2 [THEN conjunct1] have s2: "validate_schema example_consts example_verdict (versioned_parser 2)
     = Inr ((versioned_parser 2)\<lparr>isValid := False\<rparr>)"
    by (simp add: r2 c empty_collector_def)
  from t3 [THEN conjunct1] have s3: "validate_schema example_consts example_verdict (versioned_parser 3)
     = Inr ((versioned_parser 3)\<lparr>isValid := False, collector := empty_collector\<lparr>warnings :=
              [Msg ''MANIFEST_HOST_PERMISSIONS''
                 [OverrideMessage host_permission_text,
                  OverrideInstancePath ''/host_permissions/0''] False]\<rparr>\<rparr>)"
    by (simp add: r3 c wo empty_collector_def)
  from v [of 2] b [of 2] b [of 3] g [of 2] g [of 3] r2(1) s2 s3 show ?thesis by simp
qed


text \<open>
  The claim as it was stated fails for validity: a manifest of version 3, valid before
  the pass, whose only issue is the one for \<open>host_permissions\<close>, ends with one warning,
  no error, and \<open>isValid\<close> false.
\<close>

theorem validate_schema_claim_counterexample:
  "isValid (versioned_parser 3)
   \<and> (case validate_schema example_consts example_verdict (versioned_parser 3) of
         Inr p' \<Rightarrow> (isValid p', map code (warnings (collector p')), errors (collector p'))
       | Inl e \<Rightarrow> (True, [], []))
      = (False, [''MANIFEST_HOST_PERMISSIONS''], [])"
  by code_simp

section \<open>Properties of the constructor\<close>

text \<open>
  Claim C10. When the parse of the JSON string gives no document (\<open>undefined\<close>) or has
  marked the result invalid, the constructor puts the default document
  \<open>{manifest_version: null, name: null, type: PACKAGE_EXTENSION, version: null}\<close> in place
  and validates nothing: whatever \<open>_validate\<close> is, it is not run, the collector is the
  one the parse left (no diagnostic is added) and \<open>isValid\<close> is as the parse left it.
  \<open>getMetadata\<close> on the result gives \<open>null\<close> for \<open>id\<close>, \<open>manifestVersion\<close>, \<open>name\<close> and
  \<open>version\<close>.
\<close>

theorem ManifestJSONParser_parse_failure:
  assumes "parse jsonString c = (parsed, valid, c1)" and "parsed = JUndefined \<or> \<not> valid"
  shows "ManifestJSONParser parse private_validate jsonString c opts
           = Inr ((new_parser default_document c1)\<lparr>isValid := valid\<rparr>)
       \<and> collector ((new_parser default_document c1)\<lparr>isValid := valid\<rparr>) = c1
       \<and> getMetadata (parsedJSON ((new_parser default_document c1)\<lparr>isValid := valid\<rparr>))
           = Inr \<lparr>addon_id = JNull, manifestVersion = JNull, name = JNull,
                  addon_type = PACKAGE_EXTENSION, version = JNull, firefoxMinVersion = JUndefined,
                  experimentApiPaths = []\<rparr>"
proof -
  have m: "getMetadata default_document
           = Inr \<lparr>addon_id = JNull, manifestVersion = JNull, name = JNull,
                  addon_type = PACKAGE_EXTENSION, version = JNull, firefoxMinVersion = JUndefined,
                  experimentApiPaths = []\<rparr>"
    by code_simp
  show ?thesis
    using assms by (auto simp: ManifestJSONParser_def new_parser_def m)
qed

theorem ManifestJSONParser_parse_failure_witness:
  "example_parse ''{'' empty_collector = (JUndefined, False, empty_collector\<lparr>errors := [JSON_INVALID]\<rparr>)
   \<and> ManifestJSONParser example_parse example_validate ''{'' empty_collector example_options
       = Inr ((new_parser default_document (empty_collector\<lparr>errors := [JSON_INVALID]\<rparr>))\<lparr>isValid := False\<rparr>)
   \<and> ManifestJSONParser example_parse example_validate ''{}'' empty_collector example_options
       = Inr ((new_parser (JObj []) (empty_collector\<lparr>errors := [MANIFEST_FIELD_REQUIRED]\<rparr>))\<lparr>isValid := False\<rparr>)"
proof -
  have p: "example_parse ''{'' empty_collector = (JUndefined, False, empty_collector\<lparr>errors := [JSON_INVALID]\<rparr>)"
    by (simp add: example_parse_def addError_def empty_collector_def)
  have r: "ManifestJSONParser example_parse example_validate ''{'' empty_collector example_options
       = Inr ((new_parser default_document (empty_collector\<lparr>errors := [JSON_INVALID]\<rparr>))\<lparr>isValid := False\<rparr>)"
    using ManifestJSONParser_parse_failure
      [of example_parse "''{''" empty_collector JUndefined False
          "empty_collector\<lparr>errors := [JSON_INVALID]\<rparr>" example_validate example_options] p
    by simp
  have v: "ManifestJSONParser example_parse example_validate ''{}'' empty_collector example_options
       = Inr ((new_parser (JObj []) (empty_collector\<lparr>errors := [MANIFEST_FIELD_REQUIRED]\<rparr>))\<lparr>isValid := False\<rparr>)"
    by (simp add: ManifestJSONParser_def example_parse_def example_validate_def example_options_def
        detect_kind_def bindE_def new_parser_def addError_def empty_collector_def)
  from p r v show ?thesis by simp
qed

end
